theory Spec2Isabelle
  imports Main
begin

section \<open>Data model\<close>

text \<open>
  The three contracts of the repository (\<open>DataCoin\<close>, \<open>DataMarketplace\<close>,
  \<open>CrossChainBridge\<close>) are embedded as functions on explicit contract states.
  A revert is a value \<open>Inl err\<close>; a call that returns carries the updated state, the
  events it emitted and, where the Solidity function has one, its return value.

  Conventions.
  \<^item> \<open>uint256\<close> is \<open>nat\<close>; Solidity 0.8 checks every \<open>+\<close>, \<open>-\<close> and \<open>*\<close>, so each
    arithmetic operation of the source is preceded by the test that makes it revert
    with \<open>Panic 17\<close> (0x11) when the result leaves \<open>[0, 2^256 - 1]\<close>.
  \<^item> \<open>address\<close> is \<open>nat\<close>, \<open>address(0)\<close> is \<open>0\<close>.
  \<^item> \<open>bytes32\<close> values are modelled by their preimage: \<open>keccak256(abi.encodePacked(...))\<close>
    of fixed-width fields is taken to be injective, so the hash of a field list is the
    field list itself. This is the idealisation most favourable to uniqueness of ids.
  \<^item> A Solidity \<open>mapping\<close> is a total function whose default is the zero value.
  \<^item> The \<open>nonReentrant\<close> guard is not modelled: no modelled callee calls back.
  \<^item> Names are those of the source. The fields of the three structs carry a prefix
    (\<open>d_\<close>, \<open>p_\<close>, \<open>i_\<close>) because the structs share field names; \<open>pause\<close>, \<open>unpause\<close>
    and \<open>emergencyRecover\<close>, which two contracts define, carry the contract's prefix
    (\<open>mp_\<close>, \<open>br_\<close>), as do the inherited \<open>owner\<close> and \<open>paused\<close>; \<open>_tokenIds\<close> and
    \<open>_safeMint\<close> lose their underscore.
\<close>

type_synonym address = nat
type_synonym bytes32 = "nat list"

definition MAX_UINT256 :: nat where
  "MAX_UINT256 = 2 ^ 256 - 1"

definition keccak256 :: "nat list \<Rightarrow> bytes32" where
  "keccak256 fields = fields"

text \<open>The transaction context: \<open>msg.sender\<close>, \<open>block.timestamp\<close>, \<open>block.number\<close>.\<close>

record env =
  msg_sender :: address
  block_timestamp :: nat
  block_number :: nat

text \<open>
  Revert reasons. \<open>Revert s\<close> is \<open>require(cond, s)\<close>. The custom errors are those the
  contracts declare; \<open>InvalidTokenId\<close>, \<open>AccessTokenExpired\<close>, \<open>InvalidAccessToken\<close>,
  \<open>UnsupportedChain\<close>, \<open>InvalidProof\<close>, \<open>InsufficientBalance\<close> and \<open>InvalidAmount\<close> are
  declared in the source but no statement raises them. The remaining constructors are
  the errors of the inherited OpenZeppelin bases (Ownable, Pausable, ERC721), of the
  SafeERC20 wrapper and of the currency token.
\<close>

datatype error =
    Revert string
  | Panic nat
  | OwnableUnauthorizedAccount address
  | OwnableInvalidOwner address
  | EnforcedPause
  | ExpectedPause
  | ERC721NonexistentToken nat
  | ERC721InvalidReceiver address
  | ERC721InvalidSender address
  | SafeERC20FailedOperation address
  | TokenInsufficientBalance
  | TokenInsufficientAllowance
  | InsufficientPayment
  | InvalidTokenId
  | DatasetNotActive
  | PurchaseNotFound
  | AccessTokenExpired
  | InvalidAccessToken
  | UnsupportedChain
  | IntentNotFound
  | IntentAlreadyExecuted
  | IntentNotExecuted
  | InvalidProof
  | InsufficientBalance
  | InvalidAmount

text \<open>The events declared by the three contracts, with their arguments in source order.\<close>

datatype event =
    DatasetMinted nat address string nat string
  | DatasetUpdated nat nat string
  | AccessGranted nat address nat nat
  | PurchaseExecuted bytes32 nat address nat nat nat nat
  | AccessTokenGenerated bytes32 string nat
  | PlatformFeeUpdated nat nat
  | Withdrawal address nat
  | IntentCreated bytes32 address nat nat nat nat
  | IntentExecuted bytes32 address nat string
  | IntentSettled bytes32 address nat
  | ChainSupportUpdated nat bool
  | ProofVerified bytes32 bool

subsection \<open>Currency token\<close>

text \<open>
  Modelled from the spec: the currency holder (\<open>MockUSDC\<close> in the deployment scripts) is
  not among the sources. Section 6 of the specification gives its interface:
  \<open>balanceOf(account)\<close>, \<open>transferFrom(from, to, amount)\<close>, which fails if allowance or
  balance is insufficient, and \<open>transfer(to, amount)\<close>. Its state is a balance for every
  account and an allowance for every pair of holder and spender. In each function the
  first argument is the caller.
\<close>

record ERC20 =
  balances :: "address \<Rightarrow> nat"
  allowances :: "address \<Rightarrow> address \<Rightarrow> nat"

text \<open>Modelled from the spec: \<open>balanceOf(account) -> amount\<close> of the currency holder.\<close>

definition balanceOf :: "ERC20 \<Rightarrow> address \<Rightarrow> nat" where
  "balanceOf t a = balances t a"

text \<open>
  Modelled from the spec: \<open>transfer(to, amount)\<close> of the currency holder; it fails when the
  caller holds less than \<open>amount\<close>.
\<close>

definition transfer :: "address \<Rightarrow> ERC20 \<Rightarrow> address \<Rightarrow> nat \<Rightarrow> error + ERC20" where
  "transfer caller t to amount =
     (if balances t caller < amount then Inl TokenInsufficientBalance
      else let b1 = (balances t)(caller := balances t caller - amount)
           in Inr (t\<lparr>balances := b1(to := b1 to + amount)\<rparr>))"

text \<open>
  Modelled from the spec: the specification speaks of an allowance and names no function
  that sets it; \<open>approve(spender, amount)\<close> is the usual one, and sets the caller's
  allowance for \<open>spender\<close>.
\<close>

definition approve :: "address \<Rightarrow> ERC20 \<Rightarrow> address \<Rightarrow> nat \<Rightarrow> error + ERC20" where
  "approve caller t spender amount =
     Inr (t\<lparr>allowances := (allowances t)(caller := (allowances t caller)(spender := amount))\<rparr>)"

text \<open>
  Modelled from the spec: \<open>transferFrom(from, to, amount)\<close> of the currency holder; it
  fails if the caller's allowance on \<open>from\<close> or the balance of \<open>from\<close> is below
  \<open>amount\<close>, and consumes the allowance.
\<close>

definition transferFrom :: "address \<Rightarrow> ERC20 \<Rightarrow> address \<Rightarrow> address \<Rightarrow> nat \<Rightarrow> error + ERC20" where
  "transferFrom caller t from to amount =
     (if allowances t from caller < amount then Inl TokenInsufficientAllowance
      else if balances t from < amount then Inl TokenInsufficientBalance
      else let a1 = (allowances t)(from := (allowances t from)(caller := allowances t from caller - amount));
               b1 = (balances t)(from := balances t from - amount)
           in Inr (t\<lparr>balances := b1(to := b1 to + amount), allowances := a1\<rparr>))"

subsection \<open>DataCoin: the dataset registry\<close>

record DatasetInfo =
  d_cid :: string
  d_name :: string
  d_description :: string
  d_price :: nat
  d_creator :: address
  d_isActive :: bool
  d_createdAt :: nat
  d_accessPolicy :: string
  d_totalSupply :: nat
  d_soldSupply :: nat

definition zeroDataset :: DatasetInfo where
  "zeroDataset = \<lparr>d_cid = [], d_name = [], d_description = [], d_price = 0, d_creator = 0,
     d_isActive = False, d_createdAt = 0, d_accessPolicy = [], d_totalSupply = 0,
     d_soldSupply = 0\<rparr>"

text \<open>
  \<open>dc_owner\<close> is Ownable's owner, \<open>owners\<close> is ERC721's table of token holders (zero for
  a token that was never minted), \<open>receiverOk a\<close> says whether the acceptance check of
  \<open>_safeMint\<close> (\<open>onERC721Received\<close>) passes for \<open>a\<close>; it holds for every externally owned
  account. The inherited ERC721 transfer and approval entry points are left out: they
  write \<open>owners\<close> and the approval tables only, and never set a holder back to zero.
\<close>

record DataCoin =
  dc_owner :: address
  tokenIds :: nat
  datasets :: "nat \<Rightarrow> DatasetInfo"
  cidToTokenId :: "string \<Rightarrow> nat"
  owners :: "nat \<Rightarrow> address"
  receiverOk :: "address \<Rightarrow> bool"

definition ownerOf :: "DataCoin \<Rightarrow> nat \<Rightarrow> error + address" where
  "ownerOf c tokenId =
     (if owners c tokenId = 0 then Inl (ERC721NonexistentToken tokenId)
      else Inr (owners c tokenId))"

definition safeMint :: "DataCoin \<Rightarrow> address \<Rightarrow> nat \<Rightarrow> error + DataCoin" where
  "safeMint c to tokenId =
     (if to = 0 then Inl (ERC721InvalidReceiver 0)
      else if owners c tokenId \<noteq> 0 then Inl (ERC721InvalidSender 0)
      else if \<not> receiverOk c to then Inl (ERC721InvalidReceiver to)
      else Inr (c\<lparr>owners := (owners c)(tokenId := to)\<rparr>))"

definition mintDataset ::
  "env \<Rightarrow> DataCoin \<Rightarrow> address \<Rightarrow> string \<Rightarrow> string \<Rightarrow> string \<Rightarrow> nat \<Rightarrow> string \<Rightarrow> nat
   \<Rightarrow> error + (DataCoin \<times> event list \<times> nat)" where
  "mintDataset e c to cid name description price accessPolicy maxSupply =
     (if dc_owner c \<noteq> msg_sender e then Inl (OwnableUnauthorizedAccount (msg_sender e))
      else if \<not> length cid > 0 then Inl (Revert ''CID cannot be empty'')
      else if \<not> length name > 0 then Inl (Revert ''Name cannot be empty'')
      else if \<not> price > 0 then Inl (Revert ''Price must be greater than 0'')
      else if \<not> cidToTokenId c cid = 0 then Inl (Revert ''Dataset with this CID already exists'')
      else if tokenIds c + 1 > MAX_UINT256 then Inl (Panic 17)
      else let newTokenId = tokenIds c + 1;
               info = \<lparr>d_cid = cid, d_name = name, d_description = description,
                        d_price = price, d_creator = to, d_isActive = True,
                        d_createdAt = block_timestamp e, d_accessPolicy = accessPolicy,
                        d_totalSupply = maxSupply, d_soldSupply = 0\<rparr>;
               c1 = c\<lparr>tokenIds := newTokenId,
                      datasets := (datasets c)(newTokenId := info),
                      cidToTokenId := (cidToTokenId c)(cid := newTokenId)\<rparr>
           in case safeMint c1 to newTokenId of
                Inl err \<Rightarrow> Inl err
              | Inr c2 \<Rightarrow> Inr (c2, [DatasetMinted newTokenId to cid price accessPolicy], newTokenId))"

definition updateDataset ::
  "env \<Rightarrow> DataCoin \<Rightarrow> nat \<Rightarrow> nat \<Rightarrow> string \<Rightarrow> error + (DataCoin \<times> event list)" where
  "updateDataset e c tokenId newPrice newAccessPolicy =
     (case ownerOf c tokenId of
        Inl err \<Rightarrow> Inl err
      | Inr holder \<Rightarrow>
          if \<not> holder \<noteq> 0 then Inl (Revert ''Token does not exist'')
          else if \<not> d_creator (datasets c tokenId) = msg_sender e
            then Inl (Revert ''Only creator can update'')
          else if \<not> newPrice > 0 then Inl (Revert ''Price must be greater than 0'')
          else Inr (c\<lparr>datasets := (datasets c)(tokenId :=
                      (datasets c tokenId)\<lparr>d_price := newPrice,
                                             d_accessPolicy := newAccessPolicy\<rparr>)\<rparr>,
                    [DatasetUpdated tokenId newPrice newAccessPolicy]))"

definition grantAccess ::
  "env \<Rightarrow> DataCoin \<Rightarrow> nat \<Rightarrow> address \<Rightarrow> nat \<Rightarrow> error + (DataCoin \<times> event list)" where
  "grantAccess e c tokenId buyer amount =
     (if dc_owner c \<noteq> msg_sender e then Inl (OwnableUnauthorizedAccount (msg_sender e))
      else case ownerOf c tokenId of
        Inl err \<Rightarrow> Inl err
      | Inr holder \<Rightarrow>
          if \<not> holder \<noteq> 0 then Inl (Revert ''Token does not exist'')
          else if \<not> d_isActive (datasets c tokenId) then Inl (Revert ''Dataset is not active'')
          else if d_soldSupply (datasets c tokenId) + amount > MAX_UINT256 then Inl (Panic 17)
          else Inr (c\<lparr>datasets := (datasets c)(tokenId :=
                      (datasets c tokenId)\<lparr>d_soldSupply :=
                         d_soldSupply (datasets c tokenId) + amount\<rparr>)\<rparr>,
                    [AccessGranted tokenId buyer amount (block_timestamp e)]))"

definition deactivateDataset :: "env \<Rightarrow> DataCoin \<Rightarrow> nat \<Rightarrow> error + (DataCoin \<times> event list)" where
  "deactivateDataset e c tokenId =
     (case ownerOf c tokenId of
        Inl err \<Rightarrow> Inl err
      | Inr holder \<Rightarrow>
          if \<not> holder \<noteq> 0 then Inl (Revert ''Token does not exist'')
          else if \<not> d_creator (datasets c tokenId) = msg_sender e
            then Inl (Revert ''Only creator can deactivate'')
          else Inr (c\<lparr>datasets := (datasets c)(tokenId :=
                      (datasets c tokenId)\<lparr>d_isActive := False\<rparr>)\<rparr>, []))"

definition getDatasetInfo :: "DataCoin \<Rightarrow> nat \<Rightarrow> error + DatasetInfo" where
  "getDatasetInfo c tokenId =
     (case ownerOf c tokenId of
        Inl err \<Rightarrow> Inl err
      | Inr holder \<Rightarrow>
          if \<not> holder \<noteq> 0 then Inl (Revert ''Token does not exist'')
          else Inr (datasets c tokenId))"

definition cidExists :: "DataCoin \<Rightarrow> string \<Rightarrow> bool" where
  "cidExists c cid = (cidToTokenId c cid \<noteq> 0)"

definition totalSupply :: "DataCoin \<Rightarrow> nat" where
  "totalSupply c = tokenIds c"

subsection \<open>DataMarketplace: the purchase ledger\<close>

record PurchaseRecord =
  p_tokenId :: nat
  p_buyer :: address
  p_amount :: nat
  p_price :: nat
  p_timestamp :: nat
  p_isActive :: bool
  p_accessToken :: string

definition zeroPurchase :: PurchaseRecord where
  "zeroPurchase = \<lparr>p_tokenId = 0, p_buyer = 0, p_amount = 0, p_price = 0, p_timestamp = 0,
     p_isActive = False, p_accessToken = []\<rparr>"

record DataMarketplace =
  mp_owner :: address
  mp_paused :: bool
  platformFeeBps :: nat
  purchases :: "bytes32 \<Rightarrow> PurchaseRecord"
  buyerPurchases :: "address \<Rightarrow> bytes32 list"
  tokenSales :: "nat \<Rightarrow> nat"

definition MAX_PLATFORM_FEE_BPS :: nat where
  "MAX_PLATFORM_FEE_BPS = 1000"

subsection \<open>CrossChainBridge: the intent coordinator\<close>

record CrossChainIntent =
  i_intentId :: bytes32
  i_buyer :: address
  i_tokenId :: nat
  i_amount :: nat
  i_sourceChainId :: nat
  i_destinationChainId :: nat
  i_usdcAmount :: nat
  i_isExecuted :: bool
  i_isSettled :: bool
  i_createdAt :: nat
  i_executedAt :: nat
  i_accessToken :: string

definition zeroIntent :: CrossChainIntent where
  "zeroIntent = \<lparr>i_intentId = [], i_buyer = 0, i_tokenId = 0, i_amount = 0,
     i_sourceChainId = 0, i_destinationChainId = 0, i_usdcAmount = 0, i_isExecuted = False,
     i_isSettled = False, i_createdAt = 0, i_executedAt = 0, i_accessToken = []\<rparr>"

record CrossChainBridge =
  br_owner :: address
  br_paused :: bool
  supportedChains :: "nat \<Rightarrow> bool"
  intents :: "bytes32 \<Rightarrow> CrossChainIntent"
  buyerIntents :: "address \<Rightarrow> bytes32 list"
  verifiedProofs :: "bytes32 \<Rightarrow> bool"

subsection \<open>The ledger as a whole\<close>

text \<open>
  The state of the token and of the three contracts, with the addresses at which the
  token, the marketplace and the bridge are deployed (immutable after deployment). A
  call from one contract into another runs the callee with \<open>msg.sender\<close> set to the
  caller's address.
\<close>

record world =
  usdc :: ERC20
  dataCoin :: DataCoin
  marketplace :: DataMarketplace
  bridge :: CrossChainBridge
  usdcAddr :: address
  marketAddr :: address
  bridgeAddr :: address

section \<open>DataMarketplace operations\<close>

definition executePurchase ::
  "env \<Rightarrow> world \<Rightarrow> nat \<Rightarrow> nat \<Rightarrow> string \<Rightarrow> error + (world \<times> event list)" where
  "executePurchase e w tokenId amount accessToken =
     (if mp_paused (marketplace w) then Inl EnforcedPause
      else case getDatasetInfo (dataCoin w) tokenId of
        Inl err \<Rightarrow> Inl err
      | Inr dataset \<Rightarrow>
          if \<not> d_isActive dataset then Inl DatasetNotActive
          else if d_price dataset * amount > MAX_UINT256 then Inl (Panic 17)
          else let totalCost = d_price dataset * amount in
          if totalCost = 0 then Inl InsufficientPayment
          else if balanceOf (usdc w) (msg_sender e) < totalCost then Inl InsufficientPayment
          else if totalCost * platformFeeBps (marketplace w) > MAX_UINT256 then Inl (Panic 17)
          else let platformFee = (totalCost * platformFeeBps (marketplace w)) div 10000 in
          if platformFee > totalCost then Inl (Panic 17)
          else let creatorRevenue = totalCost - platformFee in
          case transferFrom (marketAddr w) (usdc w) (msg_sender e) (marketAddr w) totalCost of
            Inl err \<Rightarrow> Inl err
          | Inr t1 \<Rightarrow>
          case transfer (marketAddr w) t1 (d_creator dataset) creatorRevenue of
            Inl err \<Rightarrow> Inl err
          | Inr t2 \<Rightarrow>
          let purchaseId = keccak256 [tokenId, msg_sender e, amount, block_timestamp e,
                                      block_number e];
              m = marketplace w;
              m1 = m\<lparr>purchases := (purchases m)(purchaseId :=
                        \<lparr>p_tokenId = tokenId, p_buyer = msg_sender e, p_amount = amount,
                         p_price = d_price dataset, p_timestamp = block_timestamp e,
                         p_isActive = True, p_accessToken = accessToken\<rparr>),
                     buyerPurchases := (buyerPurchases m)(msg_sender e :=
                        buyerPurchases m (msg_sender e) @ [purchaseId])\<rparr>
          in if tokenSales m tokenId + amount > MAX_UINT256 then Inl (Panic 17)
          else let m2 = m1\<lparr>tokenSales := (tokenSales m)(tokenId :=
                               tokenSales m tokenId + amount)\<rparr> in
          case grantAccess (e\<lparr>msg_sender := marketAddr w\<rparr>) (dataCoin w) tokenId
                 (msg_sender e) amount of
            Inl err \<Rightarrow> Inl err
          | Inr (c1, evs) \<Rightarrow>
              if block_timestamp e + 86400 > MAX_UINT256 then Inl (Panic 17)
              else Inr (w\<lparr>usdc := t2, dataCoin := c1, marketplace := m2\<rparr>,
                        evs @ [PurchaseExecuted purchaseId tokenId (msg_sender e) amount
                                 (d_price dataset) platformFee creatorRevenue,
                               AccessTokenGenerated purchaseId accessToken
                                 (block_timestamp e + 86400)]))"

text \<open>
  \<open>keccak256(bytes(a)) != keccak256(bytes(b))\<close> compares the two strings; with the hash
  injective it is \<open>a \<noteq> b\<close>.
\<close>

definition verifyAccessToken ::
  "env \<Rightarrow> DataMarketplace \<Rightarrow> bytes32 \<Rightarrow> string \<Rightarrow> error + bool" where
  "verifyAccessToken e m purchaseId accessToken =
     (let purchase = purchases m purchaseId in
      if \<not> p_isActive purchase then Inl PurchaseNotFound
      else if p_accessToken purchase \<noteq> accessToken then Inr False
      else if p_timestamp purchase + 86400 > MAX_UINT256 then Inl (Panic 17)
      else if block_timestamp e > p_timestamp purchase + 86400 then Inr False
      else Inr True)"

definition getPurchase :: "DataMarketplace \<Rightarrow> bytes32 \<Rightarrow> PurchaseRecord" where
  "getPurchase m purchaseId = purchases m purchaseId"

definition getBuyerPurchases :: "DataMarketplace \<Rightarrow> address \<Rightarrow> bytes32 list" where
  "getBuyerPurchases m buyer = buyerPurchases m buyer"

definition getTokenSales :: "DataMarketplace \<Rightarrow> nat \<Rightarrow> nat" where
  "getTokenSales m tokenId = tokenSales m tokenId"

definition updatePlatformFee ::
  "env \<Rightarrow> DataMarketplace \<Rightarrow> nat \<Rightarrow> error + (DataMarketplace \<times> event list)" where
  "updatePlatformFee e m newFeeBps =
     (if mp_owner m \<noteq> msg_sender e then Inl (OwnableUnauthorizedAccount (msg_sender e))
      else if \<not> newFeeBps \<le> MAX_PLATFORM_FEE_BPS then Inl (Revert ''Fee too high'')
      else Inr (m\<lparr>platformFeeBps := newFeeBps\<rparr>,
                [PlatformFeeUpdated (platformFeeBps m) newFeeBps]))"

definition withdrawFees ::
  "env \<Rightarrow> world \<Rightarrow> address \<Rightarrow> nat \<Rightarrow> error + (world \<times> event list)" where
  "withdrawFees e w to amount =
     (if mp_owner (marketplace w) \<noteq> msg_sender e
        then Inl (OwnableUnauthorizedAccount (msg_sender e))
      else if \<not> to \<noteq> 0 then Inl (Revert ''Invalid address'')
      else if \<not> amount \<le> balanceOf (usdc w) (marketAddr w)
        then Inl (Revert ''Insufficient balance'')
      else case transfer (marketAddr w) (usdc w) to amount of
        Inl err \<Rightarrow> Inl err
      | Inr t1 \<Rightarrow> Inr (w\<lparr>usdc := t1\<rparr>, [Withdrawal to amount]))"

definition mp_pause :: "env \<Rightarrow> DataMarketplace \<Rightarrow> error + DataMarketplace" where
  "mp_pause e m =
     (if mp_owner m \<noteq> msg_sender e then Inl (OwnableUnauthorizedAccount (msg_sender e))
      else if mp_paused m then Inl EnforcedPause
      else Inr (m\<lparr>mp_paused := True\<rparr>))"

definition mp_unpause :: "env \<Rightarrow> DataMarketplace \<Rightarrow> error + DataMarketplace" where
  "mp_unpause e m =
     (if mp_owner m \<noteq> msg_sender e then Inl (OwnableUnauthorizedAccount (msg_sender e))
      else if \<not> mp_paused m then Inl ExpectedPause
      else Inr (m\<lparr>mp_paused := False\<rparr>))"

definition calculatePlatformFee :: "DataMarketplace \<Rightarrow> nat \<Rightarrow> error + nat" where
  "calculatePlatformFee m amount =
     (if amount * platformFeeBps m > MAX_UINT256 then Inl (Panic 17)
      else Inr ((amount * platformFeeBps m) div 10000))"

definition calculateCreatorRevenue :: "DataMarketplace \<Rightarrow> nat \<Rightarrow> error + nat" where
  "calculateCreatorRevenue m amount =
     (if amount * platformFeeBps m > MAX_UINT256 then Inl (Panic 17)
      else if (amount * platformFeeBps m) div 10000 > amount then Inl (Panic 17)
      else Inr (amount - (amount * platformFeeBps m) div 10000))"

text \<open>
  \<open>emergencyRecover\<close> moves an arbitrary token out of the calling contract. The currency
  token is the only token of this ledger: at any other address there is no token to
  answer, and the \<open>safeTransfer\<close> to it reverts with \<open>SafeERC20FailedOperation\<close>.
\<close>

definition mp_emergencyRecover ::
  "env \<Rightarrow> world \<Rightarrow> address \<Rightarrow> address \<Rightarrow> nat \<Rightarrow> error + world" where
  "mp_emergencyRecover e w token to amount =
     (if mp_owner (marketplace w) \<noteq> msg_sender e
        then Inl (OwnableUnauthorizedAccount (msg_sender e))
      else if \<not> to \<noteq> 0 then Inl (Revert ''Invalid address'')
      else if token = usdcAddr w then
        (case transfer (marketAddr w) (usdc w) to amount of
           Inl err \<Rightarrow> Inl err
         | Inr t1 \<Rightarrow> Inr (w\<lparr>usdc := t1\<rparr>))
      else Inl (SafeERC20FailedOperation token))"

text \<open>Ownable's \<open>transferOwnership\<close> and \<open>renounceOwnership\<close>, inherited by all three contracts.\<close>

definition transferOwnership :: "env \<Rightarrow> address \<Rightarrow> address \<Rightarrow> error + address" where
  "transferOwnership e owner newOwner =
     (if owner \<noteq> msg_sender e then Inl (OwnableUnauthorizedAccount (msg_sender e))
      else if newOwner = 0 then Inl (OwnableInvalidOwner 0)
      else Inr newOwner)"

definition renounceOwnership :: "env \<Rightarrow> address \<Rightarrow> error + address" where
  "renounceOwnership e owner =
     (if owner \<noteq> msg_sender e then Inl (OwnableUnauthorizedAccount (msg_sender e))
      else Inr 0)"

section \<open>CrossChainBridge operations\<close>

definition createIntent ::
  "env \<Rightarrow> world \<Rightarrow> nat \<Rightarrow> nat \<Rightarrow> nat \<Rightarrow> nat \<Rightarrow> error + (world \<times> event list \<times> bytes32)" where
  "createIntent e w tokenId amount sourceChainId destinationChainId =
     (if br_paused (bridge w) then Inl EnforcedPause
      else if \<not> supportedChains (bridge w) sourceChainId
        then Inl (Revert ''Unsupported source chain'')
      else if \<not> supportedChains (bridge w) destinationChainId
        then Inl (Revert ''Unsupported destination chain'')
      else if \<not> amount > 0 then Inl (Revert ''Invalid amount'')
      else case getDatasetInfo (dataCoin w) tokenId of
        Inl err \<Rightarrow> Inl err
      | Inr dataset \<Rightarrow>
          if \<not> d_isActive dataset then Inl (Revert ''Dataset not active'')
          else if d_price dataset * amount > MAX_UINT256 then Inl (Panic 17)
          else let usdcAmount = d_price dataset * amount in
          if \<not> usdcAmount > 0 then Inl (Revert ''Invalid USDC amount'')
          else let intentId = keccak256 [msg_sender e, tokenId, amount, sourceChainId,
                                         destinationChainId, block_timestamp e,
                                         block_number e];
                   b = bridge w;
                   b1 = b\<lparr>intents := (intents b)(intentId :=
                            \<lparr>i_intentId = intentId, i_buyer = msg_sender e,
                             i_tokenId = tokenId, i_amount = amount,
                             i_sourceChainId = sourceChainId,
                             i_destinationChainId = destinationChainId,
                             i_usdcAmount = usdcAmount, i_isExecuted = False,
                             i_isSettled = False, i_createdAt = block_timestamp e,
                             i_executedAt = 0, i_accessToken = []\<rparr>),
                          buyerIntents := (buyerIntents b)(msg_sender e :=
                            buyerIntents b (msg_sender e) @ [intentId])\<rparr>
               in Inr (w\<lparr>bridge := b1\<rparr>,
                       [IntentCreated intentId (msg_sender e) tokenId sourceChainId
                          destinationChainId usdcAmount],
                       intentId))"

text \<open>
  \<open>executeIntent\<close> writes the three fields of the intent and then calls the marketplace,
  which sees the bridge as \<open>msg.sender\<close>. The call is not wrapped in \<open>try\<close>: a revert of
  \<open>executePurchase\<close> is the revert of \<open>executeIntent\<close>.
\<close>

definition executeIntent ::
  "env \<Rightarrow> world \<Rightarrow> bytes32 \<Rightarrow> bytes32 \<Rightarrow> string \<Rightarrow> error + (world \<times> event list)" where
  "executeIntent e w intentId proofHash accessToken =
     (let b = bridge w; intent = intents b intentId in
      if br_owner b \<noteq> msg_sender e then Inl (OwnableUnauthorizedAccount (msg_sender e))
      else if i_buyer intent = 0 then Inl IntentNotFound
      else if i_isExecuted intent then Inl IntentAlreadyExecuted
      else if \<not> verifiedProofs b proofHash then Inl (Revert ''Invalid proof'')
      else let intent1 = intent\<lparr>i_isExecuted := True, i_executedAt := block_timestamp e,
                                 i_accessToken := accessToken\<rparr>;
               w1 = w\<lparr>bridge := b\<lparr>intents := (intents b)(intentId := intent1)\<rparr>\<rparr>
           in case executePurchase (e\<lparr>msg_sender := bridgeAddr w\<rparr>) w1 (i_tokenId intent1)
                     (i_amount intent1) accessToken of
                Inl err \<Rightarrow> Inl err
              | Inr (w2, evs) \<Rightarrow>
                  Inr (w2, evs @ [IntentExecuted intentId (i_buyer intent1)
                                    (i_tokenId intent1) accessToken]))"

definition settleIntent ::
  "env \<Rightarrow> CrossChainBridge \<Rightarrow> bytes32 \<Rightarrow> bytes32 \<Rightarrow> error + (CrossChainBridge \<times> event list)" where
  "settleIntent e b intentId proofHash =
     (let intent = intents b intentId in
      if br_owner b \<noteq> msg_sender e then Inl (OwnableUnauthorizedAccount (msg_sender e))
      else if i_buyer intent = 0 then Inl IntentNotFound
      else if \<not> i_isExecuted intent then Inl IntentNotExecuted
      else if i_isSettled intent then Inl IntentAlreadyExecuted
      else if \<not> verifiedProofs b proofHash then Inl (Revert ''Invalid settlement proof'')
      else Inr (b\<lparr>intents := (intents b)(intentId := intent\<lparr>i_isSettled := True\<rparr>)\<rparr>,
                [IntentSettled intentId (i_buyer intent) (i_usdcAmount intent)]))"

definition verifyProof ::
  "env \<Rightarrow> CrossChainBridge \<Rightarrow> bytes32 \<Rightarrow> bool \<Rightarrow> error + (CrossChainBridge \<times> event list)" where
  "verifyProof e b proofHash isValid =
     (if br_owner b \<noteq> msg_sender e then Inl (OwnableUnauthorizedAccount (msg_sender e))
      else Inr (b\<lparr>verifiedProofs := (verifiedProofs b)(proofHash := isValid)\<rparr>,
                [ProofVerified proofHash isValid]))"

definition getIntent :: "CrossChainBridge \<Rightarrow> bytes32 \<Rightarrow> CrossChainIntent" where
  "getIntent b intentId = intents b intentId"

definition getBuyerIntents :: "CrossChainBridge \<Rightarrow> address \<Rightarrow> bytes32 list" where
  "getBuyerIntents b buyer = buyerIntents b buyer"

definition updateChainSupport ::
  "env \<Rightarrow> CrossChainBridge \<Rightarrow> nat \<Rightarrow> bool \<Rightarrow> error + (CrossChainBridge \<times> event list)" where
  "updateChainSupport e b chainId supported =
     (if br_owner b \<noteq> msg_sender e then Inl (OwnableUnauthorizedAccount (msg_sender e))
      else Inr (b\<lparr>supportedChains := (supportedChains b)(chainId := supported)\<rparr>,
                [ChainSupportUpdated chainId supported]))"

definition br_pause :: "env \<Rightarrow> CrossChainBridge \<Rightarrow> error + CrossChainBridge" where
  "br_pause e b =
     (if br_owner b \<noteq> msg_sender e then Inl (OwnableUnauthorizedAccount (msg_sender e))
      else if br_paused b then Inl EnforcedPause
      else Inr (b\<lparr>br_paused := True\<rparr>))"

definition br_unpause :: "env \<Rightarrow> CrossChainBridge \<Rightarrow> error + CrossChainBridge" where
  "br_unpause e b =
     (if br_owner b \<noteq> msg_sender e then Inl (OwnableUnauthorizedAccount (msg_sender e))
      else if \<not> br_paused b then Inl ExpectedPause
      else Inr (b\<lparr>br_paused := False\<rparr>))"

definition br_emergencyRecover ::
  "env \<Rightarrow> world \<Rightarrow> address \<Rightarrow> address \<Rightarrow> nat \<Rightarrow> error + world" where
  "br_emergencyRecover e w token to amount =
     (if br_owner (bridge w) \<noteq> msg_sender e
        then Inl (OwnableUnauthorizedAccount (msg_sender e))
      else if \<not> to \<noteq> 0 then Inl (Revert ''Invalid address'')
      else if token = usdcAddr w then
        (case transfer (bridgeAddr w) (usdc w) to amount of
           Inl err \<Rightarrow> Inl err
         | Inr t1 \<Rightarrow> Inr (w\<lparr>usdc := t1\<rparr>))
      else Inl (SafeERC20FailedOperation token))"

definition isChainSupported :: "CrossChainBridge \<Rightarrow> nat \<Rightarrow> bool" where
  "isChainSupported b chainId = supportedChains b chainId"

definition getIntentStatus :: "CrossChainBridge \<Rightarrow> bytes32 \<Rightarrow> bool \<times> bool" where
  "getIntentStatus b intentId =
     (let intent = intents b intentId in (i_isExecuted intent, i_isSettled intent))"

section \<open>Deployment and transactions\<close>

text \<open>
  The constructors. \<open>DataCoin\<close> starts with no token; the marketplace with the fee at 250
  basis points and not paused; the bridge with the five example chains enabled, not
  paused, and no proof verified. Each contract is owned by its deployer. The token's
  state at deployment is a parameter.
\<close>

record deployment =
  dep_token :: ERC20
  dep_receiverOk :: "address \<Rightarrow> bool"
  dep_coinOwner :: address
  dep_marketOwner :: address
  dep_bridgeOwner :: address
  dep_usdcAddr :: address
  dep_marketAddr :: address
  dep_bridgeAddr :: address

definition init :: "deployment \<Rightarrow> world" where
  "init d =
     \<lparr>usdc = dep_token d,
      dataCoin = \<lparr>dc_owner = dep_coinOwner d, tokenIds = 0, datasets = (\<lambda>_. zeroDataset),
                  cidToTokenId = (\<lambda>_. 0), owners = (\<lambda>_. 0),
                  receiverOk = dep_receiverOk d\<rparr>,
      marketplace = \<lparr>mp_owner = dep_marketOwner d, mp_paused = False, platformFeeBps = 250,
                     purchases = (\<lambda>_. zeroPurchase), buyerPurchases = (\<lambda>_. []),
                     tokenSales = (\<lambda>_. 0)\<rparr>,
      bridge = \<lparr>br_owner = dep_bridgeOwner d, br_paused = False,
                supportedChains = (((((\<lambda>_. False)(1 := True))(137 := True))
                                      (42161 := True))(10 := True))(8453 := True),
                intents = (\<lambda>_. zeroIntent), buyerIntents = (\<lambda>_. []),
                verifiedProofs = (\<lambda>_. False)\<rparr>,
      usdcAddr = dep_usdcAddr d,
      marketAddr = dep_marketAddr d,
      bridgeAddr = dep_bridgeAddr d\<rparr>"

text \<open>
  The state-changing entry points of the system. The three \<open>Token\<close> calls are those of
  the currency token, made by any account.
\<close>

datatype call =
    MintDataset address string string string nat string nat
  | UpdateDataset nat nat string
  | GrantAccess nat address nat
  | DeactivateDataset nat
  | CoinTransferOwnership address
  | CoinRenounceOwnership
  | ExecutePurchase nat nat string
  | UpdatePlatformFee nat
  | WithdrawFees address nat
  | MarketPause
  | MarketUnpause
  | MarketEmergencyRecover address address nat
  | MarketTransferOwnership address
  | MarketRenounceOwnership
  | CreateIntent nat nat nat nat
  | ExecuteIntent bytes32 bytes32 string
  | SettleIntent bytes32 bytes32
  | VerifyProof bytes32 bool
  | UpdateChainSupport nat bool
  | BridgePause
  | BridgeUnpause
  | BridgeEmergencyRecover address address nat
  | BridgeTransferOwnership address
  | BridgeRenounceOwnership
  | TokenTransfer address nat
  | TokenApprove address nat
  | TokenTransferFrom address address nat

datatype retval = RetNone | RetUint nat | RetBytes32 bytes32

definition on_coin ::
  "world \<Rightarrow> error + (DataCoin \<times> event list) \<Rightarrow> error + (world \<times> event list \<times> retval)" where
  "on_coin w r = (case r of Inl err \<Rightarrow> Inl err
                  | Inr (c, evs) \<Rightarrow> Inr (w\<lparr>dataCoin := c\<rparr>, evs, RetNone))"

definition on_market ::
  "world \<Rightarrow> error + (DataMarketplace \<times> event list)
   \<Rightarrow> error + (world \<times> event list \<times> retval)" where
  "on_market w r = (case r of Inl err \<Rightarrow> Inl err
                    | Inr (m, evs) \<Rightarrow> Inr (w\<lparr>marketplace := m\<rparr>, evs, RetNone))"

definition on_bridge ::
  "world \<Rightarrow> error + (CrossChainBridge \<times> event list)
   \<Rightarrow> error + (world \<times> event list \<times> retval)" where
  "on_bridge w r = (case r of Inl err \<Rightarrow> Inl err
                    | Inr (b, evs) \<Rightarrow> Inr (w\<lparr>bridge := b\<rparr>, evs, RetNone))"

definition on_token :: "world \<Rightarrow> error + ERC20 \<Rightarrow> error + (world \<times> event list \<times> retval)" where
  "on_token w r = (case r of Inl err \<Rightarrow> Inl err
                   | Inr t \<Rightarrow> Inr (w\<lparr>usdc := t\<rparr>, [], RetNone))"

definition on_world ::
  "error + (world \<times> event list) \<Rightarrow> error + (world \<times> event list \<times> retval)" where
  "on_world r = (case r of Inl err \<Rightarrow> Inl err | Inr (w', evs) \<Rightarrow> Inr (w', evs, RetNone))"

definition no_events :: "error + 'a \<Rightarrow> error + ('a \<times> event list)" where
  "no_events r = (case r of Inl err \<Rightarrow> Inl err | Inr x \<Rightarrow> Inr (x, []))"

fun dispatch :: "env \<Rightarrow> call \<Rightarrow> world \<Rightarrow> error + (world \<times> event list \<times> retval)" where
  "dispatch e (MintDataset to cid name description price accessPolicy maxSupply) w =
     (case mintDataset e (dataCoin w) to cid name description price accessPolicy maxSupply of
        Inl err \<Rightarrow> Inl err
      | Inr (c, evs, newTokenId) \<Rightarrow> Inr (w\<lparr>dataCoin := c\<rparr>, evs, RetUint newTokenId))"
| "dispatch e (UpdateDataset tokenId newPrice newAccessPolicy) w =
     on_coin w (updateDataset e (dataCoin w) tokenId newPrice newAccessPolicy)"
| "dispatch e (GrantAccess tokenId buyer amount) w =
     on_coin w (grantAccess e (dataCoin w) tokenId buyer amount)"
| "dispatch e (DeactivateDataset tokenId) w =
     on_coin w (deactivateDataset e (dataCoin w) tokenId)"
| "dispatch e (CoinTransferOwnership newOwner) w =
     on_coin w (no_events (map_sum id (\<lambda>a. (dataCoin w)\<lparr>dc_owner := a\<rparr>)
       (transferOwnership e (dc_owner (dataCoin w)) newOwner)))"
| "dispatch e CoinRenounceOwnership w =
     on_coin w (no_events (map_sum id (\<lambda>a. (dataCoin w)\<lparr>dc_owner := a\<rparr>)
       (renounceOwnership e (dc_owner (dataCoin w)))))"
| "dispatch e (ExecutePurchase tokenId amount accessToken) w =
     on_world (executePurchase e w tokenId amount accessToken)"
| "dispatch e (UpdatePlatformFee newFeeBps) w =
     on_market w (updatePlatformFee e (marketplace w) newFeeBps)"
| "dispatch e (WithdrawFees to amount) w = on_world (withdrawFees e w to amount)"
| "dispatch e MarketPause w = on_market w (no_events (mp_pause e (marketplace w)))"
| "dispatch e MarketUnpause w = on_market w (no_events (mp_unpause e (marketplace w)))"
| "dispatch e (MarketEmergencyRecover token to amount) w =
     on_world (no_events (mp_emergencyRecover e w token to amount))"
| "dispatch e (MarketTransferOwnership newOwner) w =
     on_market w (no_events (map_sum id (\<lambda>a. (marketplace w)\<lparr>mp_owner := a\<rparr>)
       (transferOwnership e (mp_owner (marketplace w)) newOwner)))"
| "dispatch e MarketRenounceOwnership w =
     on_market w (no_events (map_sum id (\<lambda>a. (marketplace w)\<lparr>mp_owner := a\<rparr>)
       (renounceOwnership e (mp_owner (marketplace w)))))"
| "dispatch e (CreateIntent tokenId amount sourceChainId destinationChainId) w =
     (case createIntent e w tokenId amount sourceChainId destinationChainId of
        Inl err \<Rightarrow> Inl err
      | Inr (w', evs, intentId) \<Rightarrow> Inr (w', evs, RetBytes32 intentId))"
| "dispatch e (ExecuteIntent intentId proofHash accessToken) w =
     on_world (executeIntent e w intentId proofHash accessToken)"
| "dispatch e (SettleIntent intentId proofHash) w =
     on_bridge w (settleIntent e (bridge w) intentId proofHash)"
| "dispatch e (VerifyProof proofHash isValid) w =
     on_bridge w (verifyProof e (bridge w) proofHash isValid)"
| "dispatch e (UpdateChainSupport chainId supported) w =
     on_bridge w (updateChainSupport e (bridge w) chainId supported)"
| "dispatch e BridgePause w = on_bridge w (no_events (br_pause e (bridge w)))"
| "dispatch e BridgeUnpause w = on_bridge w (no_events (br_unpause e (bridge w)))"
| "dispatch e (BridgeEmergencyRecover token to amount) w =
     on_world (no_events (br_emergencyRecover e w token to amount))"
| "dispatch e (BridgeTransferOwnership newOwner) w =
     on_bridge w (no_events (map_sum id (\<lambda>a. (bridge w)\<lparr>br_owner := a\<rparr>)
       (transferOwnership e (br_owner (bridge w)) newOwner)))"
| "dispatch e BridgeRenounceOwnership w =
     on_bridge w (no_events (map_sum id (\<lambda>a. (bridge w)\<lparr>br_owner := a\<rparr>)
       (renounceOwnership e (br_owner (bridge w)))))"
| "dispatch e (TokenTransfer to amount) w =
     on_token w (transfer (msg_sender e) (usdc w) to amount)"
| "dispatch e (TokenApprove spender amount) w =
     on_token w (approve (msg_sender e) (usdc w) spender amount)"
| "dispatch e (TokenTransferFrom from to amount) w =
     on_token w (transferFrom (msg_sender e) (usdc w) from to amount)"

text \<open>
  A transaction is atomic: when the call reverts every write it made is discarded and
  the ledger is the one before the call.
\<close>

definition exec :: "env \<Rightarrow> call \<Rightarrow> world \<Rightarrow> world" where
  "exec e c w = (case dispatch e c w of Inl err \<Rightarrow> w | Inr (w', evs, r) \<Rightarrow> w')"

fun run :: "(env \<times> call) list \<Rightarrow> world \<Rightarrow> world" where
  "run [] w = w"
| "run ((e, c) # tr) w = run tr (exec e c w)"

text \<open>The ids returned by the successful \<open>mintDataset\<close> calls of a trace, in order.\<close>

fun mint_result :: "call \<Rightarrow> retval \<Rightarrow> nat list" where
  "mint_result (MintDataset to cid name description price accessPolicy maxSupply) (RetUint n) = [n]"
| "mint_result c r = []"

fun minted :: "(env \<times> call) list \<Rightarrow> world \<Rightarrow> nat list" where
  "minted [] w = []"
| "minted ((e, c) # tr) w =
     (case dispatch e c w of
        Inl err \<Rightarrow> minted tr w
      | Inr (w', evs, r) \<Rightarrow> mint_result c r @ minted tr w')"

section \<open>Concrete ledgers\<close>

text \<open>
  Ledgers reached by short traces from a deployment, used to instantiate the theorems
  below. Account 1 deploys the three contracts, account 2 is a buyer holding
  10000000 units of the currency, account 3 is the creator of dataset 1; the token, the
  marketplace and the bridge live at addresses 100, 101 and 102; these three are
  contracts that do not accept an ERC721 token, every other address does. In the token's
  state the bridge address holds 3000000 units and the marketplace has an allowance of
  3000000 on them: no function of \<open>CrossChainBridge\<close> grants such an allowance, and
  without it the purchase made by \<open>executeIntent\<close> is rejected by the token.
\<close>

definition dep0 :: deployment where
  "dep0 = \<lparr>dep_token = \<lparr>balances = ((\<lambda>_. 0)(2 := 10000000))(102 := 3000000),
                          allowances = (\<lambda>_ _. 0)(102 := (\<lambda>_. 0)(101 := 3000000))\<rparr>,
     dep_receiverOk = (\<lambda>a. a \<noteq> 100 \<and> a \<noteq> 101 \<and> a \<noteq> 102),
     dep_coinOwner = 1, dep_marketOwner = 1, dep_bridgeOwner = 1,
     dep_usdcAddr = 100, dep_marketAddr = 101, dep_bridgeAddr = 102\<rparr>"

definition tx :: "address \<Rightarrow> env" where
  "tx a = \<lparr>msg_sender = a, block_timestamp = 1000, block_number = 7\<rparr>"

text \<open>
  Dataset 1 is minted at price 1000000 with supply 5, ownership of the registry is handed
  to the marketplace (without it \<open>grantAccess\<close> rejects the marketplace), and the buyer
  approves the marketplace.
\<close>

definition ready_trace :: "(env \<times> call) list" where
  "ready_trace =
     [(tx 1, MintDataset 3 ''QmTest123'' ''Test Dataset'' ''Description'' 1000000 ''public'' 5),
      (tx 1, CoinTransferOwnership 101),
      (tx 2, TokenApprove 101 10000000)]"

definition market_ready :: world where
  "market_ready = run ready_trace (init dep0)"

text \<open>The buyer has bought one unit of dataset 1 at time 1000 in block 7.\<close>

definition purchased :: world where
  "purchased = run (ready_trace @ [(tx 2, ExecutePurchase 1 1 ''token-1'')]) (init dep0)"

text \<open>The creator has deactivated dataset 1; in \<open>halted\<close> the marketplace is paused as well.\<close>

definition deactivated :: world where
  "deactivated = run [(tx 3, DeactivateDataset 1)] market_ready"

definition halted :: world where
  "halted = run [(tx 3, DeactivateDataset 1), (tx 1, MarketPause)] market_ready"

text \<open>The buyer has bought six units of dataset 1, whose supply is five.\<close>

definition oversold :: world where
  "oversold = run [(tx 2, ExecutePurchase 1 6 ''token-6'')] market_ready"

text \<open>The bridge has been paused by its owner.\<close>

definition bridge_paused :: world where
  "bridge_paused = run [(tx 1, BridgePause)] market_ready"

text \<open>
  The buyer has created an intent for one unit of dataset 1 from chain 1 to chain 137;
  in \<open>intent_proved\<close> the owner has also marked proof \<open>[77]\<close> as verified.
\<close>

definition intent_created :: world where
  "intent_created = run [(tx 2, CreateIntent 1 1 1 137)] market_ready"

definition intent_proved :: world where
  "intent_proved = run [(tx 2, CreateIntent 1 1 1 137), (tx 1, VerifyProof [77] True)] market_ready"

text \<open>
  The owner has executed the intent with proof \<open>[77]\<close>; in \<open>intent_settled\<close> the intent
  is settled as well. In \<open>intent_stale\<close> the creator deactivated the dataset after the
  proof was recorded, so the purchase behind the intent is rejected.
\<close>

definition intent_executed :: world where
  "intent_executed =
     run [(tx 1, ExecuteIntent [2, 1, 1, 1, 137, 1000, 7] [77] ''token-x'')] intent_proved"

definition intent_settled :: world where
  "intent_settled =
     run [(tx 1, SettleIntent [2, 1, 1, 1, 137, 1000, 7] [77])] intent_executed"

definition intent_stale :: world where
  "intent_stale = run [(tx 3, DeactivateDataset 1)] intent_proved"




text \<open>
  In the block in which the first intent was created, executed and settled, the buyer
  sends the same \<open>createIntent\<close> request again.
\<close>

definition intent_recreated :: world where
  "intent_recreated = run [(tx 2, CreateIntent 1 1 1 137)] intent_settled"

text \<open>
  The registry after its first mint, still owned by account 1; and a trace of three mint
  requests of which the second reuses the content reference of the first.
\<close>

definition minted_once :: world where
  "minted_once =
     run [(tx 1, MintDataset 3 ''QmTest123'' ''Test Dataset'' ''Description'' 1000000 ''public'' 5)]
       (init dep0)"

definition three_mints :: "(env \<times> call) list" where
  "three_mints =
     [(tx 1, MintDataset 3 ''QmTest123'' ''Test Dataset'' ''Description'' 1000000 ''public'' 5),
      (tx 1, MintDataset 3 ''QmTest123'' ''Second Dataset'' ''Description'' 2000000 ''private'' 0),
      (tx 1, MintDataset 3 ''QmOther456'' ''Third Dataset'' ''Description'' 2000000 ''private'' 0)]"

text \<open>
  Two purchases of one unit of dataset 1 by the same buyer in the same block, with
  different access tokens.
\<close>

definition bought_once :: world where
  "bought_once = run [(tx 2, ExecutePurchase 1 1 ''token-A'')] market_ready"

definition bought_twice :: world where
  "bought_twice = run [(tx 2, ExecutePurchase 1 1 ''token-B'')] bought_once"

section \<open>Auxiliary facts\<close>

subsection \<open>Unfolding sets\<close>

lemmas coin_defs = mintDataset_def updateDataset_def grantAccess_def deactivateDataset_def
  getDatasetInfo_def ownerOf_def safeMint_def

lemmas token_defs = transfer_def approve_def transferFrom_def balanceOf_def

lemmas wrap_defs = on_coin_def on_market_def on_bridge_def on_token_def on_world_def no_events_def
  transferOwnership_def renounceOwnership_def

lemmas op_defs = createIntent_def settleIntent_def verifyProof_def updateChainSupport_def
  br_pause_def br_unpause_def br_emergencyRecover_def mp_emergencyRecover_def mp_pause_def
  mp_unpause_def withdrawFees_def updatePlatformFee_def

lemmas eval_defs = dep0_def tx_def ready_trace_def market_ready_def init_def exec_def coin_defs token_defs wrap_defs
  executePurchase_def keccak256_def MAX_UINT256_def Let_def

subsection \<open>What a successful purchase did\<close>

text \<open>
  A call of \<open>executePurchase\<close> that returns has passed every check of the source, in
  order; the lemmas below read them off, together with the events and the new state of
  each contract.
\<close>

lemma executePurchase_frame:
  assumes "executePurchase e w tokenId amount tok = Inr (w', evs)"
  shows "bridge w' = bridge w" "usdcAddr w' = usdcAddr w" "marketAddr w' = marketAddr w" "bridgeAddr w' = bridgeAddr w"
  using assms
  by (auto simp: executePurchase_def Let_def split: if_splits sum.splits prod.splits)

lemma executePurchase_pre:
  assumes "executePurchase e w tokenId amount tok = Inr (w', evs)"
  shows "\<not> mp_paused (marketplace w)"
    and "getDatasetInfo (dataCoin w) tokenId = Inr (datasets (dataCoin w) tokenId)"
    and "d_isActive (datasets (dataCoin w) tokenId)"
    and "d_price (datasets (dataCoin w) tokenId) * amount \<le> MAX_UINT256"
    and "d_price (datasets (dataCoin w) tokenId) * amount \<noteq> 0"
    and "d_price (datasets (dataCoin w) tokenId) * amount \<le> balanceOf (usdc w) (msg_sender e)"
    and "d_price (datasets (dataCoin w) tokenId) * amount * platformFeeBps (marketplace w) div 10000
           \<le> d_price (datasets (dataCoin w) tokenId) * amount"
    and "dc_owner (dataCoin w) = marketAddr w"
    and "block_timestamp e + 86400 \<le> MAX_UINT256"
  using assms
  by (auto simp: executePurchase_def getDatasetInfo_def ownerOf_def grantAccess_def Let_def split: if_splits sum.splits prod.splits)

lemma executePurchase_events:
  assumes "executePurchase e w tokenId amount tok = Inr (w', evs)"
  shows "evs = [AccessGranted tokenId (msg_sender e) amount (block_timestamp e),
                PurchaseExecuted (keccak256 [tokenId, msg_sender e, amount, block_timestamp e, block_number e])
                   tokenId (msg_sender e) amount (d_price (datasets (dataCoin w) tokenId))
                   (d_price (datasets (dataCoin w) tokenId) * amount * platformFeeBps (marketplace w) div 10000)
                   (d_price (datasets (dataCoin w) tokenId) * amount
                     - d_price (datasets (dataCoin w) tokenId) * amount * platformFeeBps (marketplace w) div 10000),
                AccessTokenGenerated (keccak256 [tokenId, msg_sender e, amount, block_timestamp e, block_number e])
                   tok (block_timestamp e + 86400)]"
  using assms
  by (auto simp: executePurchase_def getDatasetInfo_def ownerOf_def grantAccess_def Let_def split: if_splits sum.splits prod.splits)

lemma executePurchase_market:
  assumes "executePurchase e w tokenId amount tok = Inr (w', evs)"
  shows "marketplace w' = (marketplace w)\<lparr>
            purchases := (purchases (marketplace w))
              (keccak256 [tokenId, msg_sender e, amount, block_timestamp e, block_number e] :=
                 \<lparr>p_tokenId = tokenId, p_buyer = msg_sender e, p_amount = amount,
                  p_price = d_price (datasets (dataCoin w) tokenId), p_timestamp = block_timestamp e,
                  p_isActive = True, p_accessToken = tok\<rparr>),
            buyerPurchases := (buyerPurchases (marketplace w))(msg_sender e :=
               buyerPurchases (marketplace w) (msg_sender e) @
                 [keccak256 [tokenId, msg_sender e, amount, block_timestamp e, block_number e]]),
            tokenSales := (tokenSales (marketplace w))(tokenId := tokenSales (marketplace w) tokenId + amount)\<rparr>"
  using assms
  by (auto simp: executePurchase_def getDatasetInfo_def ownerOf_def grantAccess_def Let_def split: if_splits sum.splits prod.splits)

lemma executePurchase_coin:
  assumes "executePurchase e w tokenId amount tok = Inr (w', evs)"
  shows "dataCoin w' = (dataCoin w)\<lparr>datasets := (datasets (dataCoin w))(tokenId :=
            (datasets (dataCoin w) tokenId)\<lparr>d_soldSupply := d_soldSupply (datasets (dataCoin w) tokenId) + amount\<rparr>)\<rparr>"
  using assms
  by (auto simp: executePurchase_def getDatasetInfo_def ownerOf_def grantAccess_def Let_def split: if_splits sum.splits prod.splits)

lemma executePurchase_token:
  assumes "executePurchase e w tokenId amount tok = Inr (w', evs)"
  shows "\<exists>t1. transferFrom (marketAddr w) (usdc w) (msg_sender e) (marketAddr w)
              (d_price (datasets (dataCoin w) tokenId) * amount) = Inr t1 \<and>
           transfer (marketAddr w) t1 (d_creator (datasets (dataCoin w) tokenId))
              (d_price (datasets (dataCoin w) tokenId) * amount
                - d_price (datasets (dataCoin w) tokenId) * amount * platformFeeBps (marketplace w) div 10000)
             = Inr (usdc w')"
  using assms
  by (auto simp: executePurchase_def getDatasetInfo_def ownerOf_def grantAccess_def Let_def split: if_splits sum.splits prod.splits)

lemma token_pull_pay:
  assumes "transferFrom m t buyer m cost = Inr t1"
      and "transfer m t1 creator r = Inr t2"
      and "buyer \<noteq> creator" "buyer \<noteq> m" "creator \<noteq> m" "r \<le> cost"
  shows "balances t2 buyer = balances t buyer - cost"
    and "balances t2 creator = balances t creator + r"
    and "balances t2 m = balances t m + (cost - r)"
  using assms
  by (auto simp: transferFrom_def transfer_def Let_def split: if_splits)

lemma executePurchase_bridge_indep:
  "executePurchase e (w\<lparr>bridge := b\<rparr>) t a tok =
     (case executePurchase e w t a tok of
        Inl err \<Rightarrow> Inl err
      | Inr (w', evs) \<Rightarrow> Inr (w'\<lparr>bridge := b\<rparr>, evs))"
  by (auto simp: executePurchase_def Let_def split: if_splits sum.splits prod.splits)

subsection \<open>What a successful intent execution did\<close>

lemma executeIntent_success:
  assumes "executeIntent e w iid ph tok = Inr (w', evs)"
  shows "br_owner (bridge w) = msg_sender e"
    and "i_buyer (intents (bridge w) iid) \<noteq> 0"
    and "\<not> i_isExecuted (intents (bridge w) iid)"
    and "verifiedProofs (bridge w) ph"
    and "\<exists>evs1. executePurchase (e\<lparr>msg_sender := bridgeAddr w\<rparr>)
            (w\<lparr>bridge := (bridge w)\<lparr>intents := (intents (bridge w))(iid :=
                 (intents (bridge w) iid)\<lparr>i_isExecuted := True,
                    i_executedAt := block_timestamp e, i_accessToken := tok\<rparr>)\<rparr>\<rparr>)
            (i_tokenId (intents (bridge w) iid)) (i_amount (intents (bridge w) iid)) tok
          = Inr (w', evs1) \<and>
          evs = evs1 @ [IntentExecuted iid (i_buyer (intents (bridge w) iid))
                          (i_tokenId (intents (bridge w) iid)) tok]"
  using assms
  by (auto simp: executeIntent_def Let_def split: if_splits sum.splits prod.splits)

lemma executeIntent_bridge:
  assumes "executeIntent e w iid ph tok = Inr (w', evs)"
  shows "bridge w' = (bridge w)\<lparr>intents := (intents (bridge w))(iid :=
                 (intents (bridge w) iid)\<lparr>i_isExecuted := True,
                    i_executedAt := block_timestamp e, i_accessToken := tok\<rparr>)\<rparr>"
  using executeIntent_success(5)[OF assms] executePurchase_frame(1) by fastforce

lemma executeIntent_sub_fails:
  assumes "executePurchase (e\<lparr>msg_sender := bridgeAddr w\<rparr>) w
             (i_tokenId (intents (bridge w) iid)) (i_amount (intents (bridge w) iid)) tok = Inl err"
  shows "isl (executeIntent e w iid ph tok)"
    and "br_owner (bridge w) = msg_sender e \<Longrightarrow> i_buyer (intents (bridge w) iid) \<noteq> 0 \<Longrightarrow>
         \<not> i_isExecuted (intents (bridge w) iid) \<Longrightarrow> verifiedProofs (bridge w) ph \<Longrightarrow>
         executeIntent e w iid ph tok = Inl err"
  using assms
  by (auto simp: executeIntent_def Let_def executePurchase_bridge_indep)

subsection \<open>What any operation leaves alone\<close>

text \<open>
  Frame properties of \<open>dispatch\<close>, by cases on the call: the two purchase paths go through
  the lemmas above, every other call is unfolded.
\<close>

lemma purchases_changed:
  assumes "dispatch e c w = Inr (w', evs, r)"
      and "purchases (marketplace w') pid \<noteq> purchases (marketplace w) pid"
  shows "p_isActive (purchases (marketplace w') pid) \<and>
         p_timestamp (purchases (marketplace w') pid) + 86400 \<le> MAX_UINT256"
proof (cases c)
  case (ExecutePurchase t a tok)
  then have ex: "executePurchase e w t a tok = Inr (w', evs)"
    using assms(1) by (auto simp: on_world_def split: sum.splits prod.splits)
  show ?thesis
    using assms(2) executePurchase_pre(9)[OF ex]
    by (auto simp: executePurchase_market[OF ex] split: if_splits)
next
  case (ExecuteIntent iid ph tok)
  then have ei: "executeIntent e w iid ph tok = Inr (w', evs)"
    using assms(1) by (auto simp: on_world_def split: sum.splits prod.splits)
  from executeIntent_success(5)[OF ei] obtain evs1 w1 where
    w1: "w1 = w\<lparr>bridge := (bridge w)\<lparr>intents := (intents (bridge w))(iid :=
                 (intents (bridge w) iid)\<lparr>i_isExecuted := True,
                    i_executedAt := block_timestamp e, i_accessToken := tok\<rparr>)\<rparr>\<rparr>"
    and ex: "executePurchase (e\<lparr>msg_sender := bridgeAddr w\<rparr>) w1
            (i_tokenId (intents (bridge w) iid)) (i_amount (intents (bridge w) iid)) tok
          = Inr (w', evs1)"
    by auto
  have m: "marketplace w1 = marketplace w" by (simp add: w1)
  show ?thesis
    using assms(2) executePurchase_pre(9)[OF ex]
    by (auto simp: executePurchase_market[OF ex] m split: if_splits)
qed (use assms in \<open>auto simp: wrap_defs coin_defs token_defs op_defs Let_def split: if_splits sum.splits prod.splits\<close>)

lemma expiry_exec:
  assumes "\<And>pid. p_isActive (purchases (marketplace w) pid) \<Longrightarrow>
                  p_timestamp (purchases (marketplace w) pid) + 86400 \<le> MAX_UINT256"
      and "p_isActive (purchases (marketplace (exec e c w)) pid)"
  shows "p_timestamp (purchases (marketplace (exec e c w)) pid) + 86400 \<le> MAX_UINT256"
proof (cases "dispatch e c w")
  case (Inl err)
  then show ?thesis using assms by (simp add: exec_def)
next
  case (Inr res)
  then obtain w' evs r where d: "dispatch e c w = Inr (w', evs, r)"
    by (cases res) auto
  then have ex: "exec e c w = w'" by (simp add: exec_def)
  show ?thesis
  proof (cases "purchases (marketplace w') pid = purchases (marketplace w) pid")
    case True
    then show ?thesis using assms ex by simp
  next
    case False
    then show ?thesis using purchases_changed[OF d False] ex by simp
  qed
qed

lemma expiry_run:
  assumes "\<And>pid. p_isActive (purchases (marketplace w) pid) \<Longrightarrow>
                  p_timestamp (purchases (marketplace w) pid) + 86400 \<le> MAX_UINT256"
      and "p_isActive (purchases (marketplace (run tr w)) pid)"
  shows "p_timestamp (purchases (marketplace (run tr w)) pid) + 86400 \<le> MAX_UINT256"
  using assms
proof (induction tr arbitrary: w)
  case Nil
  then show ?case by simp
next
  case (Cons x tr)
  obtain e c where x: "x = (e, c)" by (cases x)
  show ?case
    using Cons.prems(2) unfolding x run.simps
    by (rule Cons.IH[rotated]) (rule expiry_exec[OF Cons.prems(1)])
qed

lemma dispatch_supply:
  assumes "dispatch e c w = Inr (w', evs, r)" and "owners (dataCoin w) t \<noteq> 0"
  shows "d_totalSupply (datasets (dataCoin w') t) = d_totalSupply (datasets (dataCoin w) t) \<and>
         d_soldSupply (datasets (dataCoin w) t) \<le> d_soldSupply (datasets (dataCoin w') t) \<and>
         owners (dataCoin w') t \<noteq> 0"
proof (cases c)
  case (ExecutePurchase tk a tok)
  then have ex: "executePurchase e w tk a tok = Inr (w', evs)"
    using assms(1) by (auto simp: on_world_def split: sum.splits prod.splits)
  show ?thesis
    using assms(2) by (simp add: executePurchase_coin[OF ex])
next
  case (ExecuteIntent iid ph tok)
  then have ei: "executeIntent e w iid ph tok = Inr (w', evs)"
    using assms(1) by (auto simp: on_world_def split: sum.splits prod.splits)
  from executeIntent_success(5)[OF ei] obtain evs1 w1 where
    w1: "w1 = w\<lparr>bridge := (bridge w)\<lparr>intents := (intents (bridge w))(iid :=
                 (intents (bridge w) iid)\<lparr>i_isExecuted := True,
                    i_executedAt := block_timestamp e, i_accessToken := tok\<rparr>)\<rparr>\<rparr>"
    and ex: "executePurchase (e\<lparr>msg_sender := bridgeAddr w\<rparr>) w1
            (i_tokenId (intents (bridge w) iid)) (i_amount (intents (bridge w) iid)) tok
          = Inr (w', evs1)"
    by auto
  have m: "dataCoin w1 = dataCoin w" by (simp add: w1)
  show ?thesis
    using assms(2) by (simp add: executePurchase_coin[OF ex] m)
qed (use assms in \<open>auto simp: wrap_defs coin_defs token_defs op_defs Let_def
       split: if_splits sum.splits prod.splits\<close>)


lemma dispatch_intent_flags:
  assumes "dispatch e c w = Inr (w', evs, r)"
      and "\<And>t a s d. c = CreateIntent t a s d \<Longrightarrow>
             keccak256 [msg_sender e, t, a, s, d, block_timestamp e, block_number e] \<noteq> iid"
  shows "i_isExecuted (intents (bridge w) iid) \<longrightarrow> i_isExecuted (intents (bridge w') iid)"
    and "i_isSettled (intents (bridge w) iid) \<longrightarrow> i_isSettled (intents (bridge w') iid)"
proof -
  have "(i_isExecuted (intents (bridge w) iid) \<longrightarrow> i_isExecuted (intents (bridge w') iid)) \<and>
        (i_isSettled (intents (bridge w) iid) \<longrightarrow> i_isSettled (intents (bridge w') iid))"
  proof (cases c)
    case (ExecutePurchase tk a tok)
    then have ex: "executePurchase e w tk a tok = Inr (w', evs)"
      using assms(1) by (auto simp: on_world_def split: sum.splits prod.splits)
    show ?thesis using executePurchase_frame(1)[OF ex] by simp
  next
    case (ExecuteIntent jid ph tok)
    then have ei: "executeIntent e w jid ph tok = Inr (w', evs)"
      using assms(1) by (auto simp: on_world_def split: sum.splits prod.splits)
    show ?thesis by (simp add: executeIntent_bridge[OF ei])
  next
    case (CreateIntent t a s d)
    then have ci: "createIntent e w t a s d = Inr (w', evs, keccak256 [msg_sender e, t, a, s, d, block_timestamp e, block_number e])"
      using assms(1)
      by (auto simp: createIntent_def Let_def split: if_splits sum.splits prod.splits)
    have ne: "keccak256 [msg_sender e, t, a, s, d, block_timestamp e, block_number e] \<noteq> iid"
      using assms(2) CreateIntent by simp
    show ?thesis
      using ci ne
      by (auto simp: createIntent_def Let_def split: if_splits sum.splits prod.splits)
  qed (use assms(1) in \<open>auto simp: wrap_defs coin_defs token_defs op_defs Let_def
         split: if_splits sum.splits prod.splits\<close>)
  then show "i_isExecuted (intents (bridge w) iid) \<longrightarrow> i_isExecuted (intents (bridge w') iid)"
    and "i_isSettled (intents (bridge w) iid) \<longrightarrow> i_isSettled (intents (bridge w') iid)"
    by simp_all
qed

lemma dispatch_tokenIds:
  assumes "dispatch e c w = Inr (w', evs, r)"
  shows "(mint_result c r = [] \<and> tokenIds (dataCoin w') = tokenIds (dataCoin w)) \<or>
         (mint_result c r = [tokenIds (dataCoin w) + 1] \<and>
          tokenIds (dataCoin w') = tokenIds (dataCoin w) + 1)"
proof (cases c)
  case (ExecutePurchase tk a tok)
  then have ex: "executePurchase e w tk a tok = Inr (w', evs)" and r: "r = RetNone"
    using assms(1) by (auto simp: on_world_def split: sum.splits prod.splits)
  show ?thesis using ExecutePurchase r by (simp add: executePurchase_coin[OF ex])
next
  case (ExecuteIntent iid ph tok)
  then have ei: "executeIntent e w iid ph tok = Inr (w', evs)" and r: "r = RetNone"
    using assms(1) by (auto simp: on_world_def split: sum.splits prod.splits)
  from executeIntent_success(5)[OF ei] obtain evs1 w1 where
    w1: "w1 = w\<lparr>bridge := (bridge w)\<lparr>intents := (intents (bridge w))(iid :=
                 (intents (bridge w) iid)\<lparr>i_isExecuted := True,
                    i_executedAt := block_timestamp e, i_accessToken := tok\<rparr>)\<rparr>\<rparr>"
    and ex: "executePurchase (e\<lparr>msg_sender := bridgeAddr w\<rparr>) w1
            (i_tokenId (intents (bridge w) iid)) (i_amount (intents (bridge w) iid)) tok
          = Inr (w', evs1)"
    by auto
  have m: "dataCoin w1 = dataCoin w" by (simp add: w1)
  show ?thesis using ExecuteIntent r by (simp add: executePurchase_coin[OF ex] m)
qed (use assms in \<open>auto simp: wrap_defs coin_defs token_defs op_defs Let_def
       split: if_splits sum.splits prod.splits\<close>)

lemma minted_from:
  "minted tr w = [tokenIds (dataCoin w) + 1 ..< tokenIds (dataCoin w) + 1 + length (minted tr w)]"
proof (induction tr arbitrary: w)
  case Nil
  then show ?case by simp
next
  case (Cons x tr)
  obtain e c where x: "x = (e, c)" by (cases x)
  show ?case
  proof (cases "dispatch e c w")
    case (Inl err)
    then show ?thesis using Cons.IH[of w] by (simp add: x)
  next
    case (Inr res)
    then obtain w' evs r where d: "dispatch e c w = Inr (w', evs, r)"
      by (cases res) auto
    from dispatch_tokenIds[OF d] show ?thesis
    proof
      assume "mint_result c r = [] \<and> tokenIds (dataCoin w') = tokenIds (dataCoin w)"
      then show ?thesis using Cons.IH[of w'] d by (simp add: x)
    next
      assume a: "mint_result c r = [tokenIds (dataCoin w) + 1] \<and>
                 tokenIds (dataCoin w') = tokenIds (dataCoin w) + 1"
      define n where "n = tokenIds (dataCoin w)"
      define k where "k = length (minted tr w')"
      have hd: "minted (x # tr) w = (n + 1) # minted tr w'"
        using a d by (simp add: x n_def)
      have ih: "minted tr w' = [n + 2 ..< n + 2 + k]"
        using Cons.IH[of w'] a by (simp add: n_def k_def)
      have "[n + 1 ..< n + 1 + Suc k] = (n + 1) # [Suc (n + 1) ..< n + 1 + Suc k]"
        by (rule upt_conv_Cons) simp
      also have "[Suc (n + 1) ..< n + 1 + Suc k] = [n + 2 ..< n + 2 + k]"
        by (simp del: upt_Suc)
      finally have "[n + 1 ..< n + 1 + Suc k] = minted (x # tr) w"
        using hd ih by simp
      moreover have "length (minted (x # tr) w) = Suc k"
        using hd by (simp add: k_def)
      ultimately show ?thesis
        unfolding n_def by simp
    qed
  qed
qed

lemma dispatch_cid:
  assumes "dispatch e c w = Inr (w', evs, r)" and "cidToTokenId (dataCoin w) cid \<noteq> 0"
  shows "cidToTokenId (dataCoin w') cid \<noteq> 0"
proof (cases c)
  case (ExecutePurchase tk a tok)
  then have ex: "executePurchase e w tk a tok = Inr (w', evs)"
    using assms(1) by (auto simp: on_world_def split: sum.splits prod.splits)
  show ?thesis using assms(2) by (simp add: executePurchase_coin[OF ex])
next
  case (ExecuteIntent iid ph tok)
  then have ei: "executeIntent e w iid ph tok = Inr (w', evs)"
    using assms(1) by (auto simp: on_world_def split: sum.splits prod.splits)
  from executeIntent_success(5)[OF ei] obtain evs1 w1 where
    w1: "w1 = w\<lparr>bridge := (bridge w)\<lparr>intents := (intents (bridge w))(iid :=
                 (intents (bridge w) iid)\<lparr>i_isExecuted := True,
                    i_executedAt := block_timestamp e, i_accessToken := tok\<rparr>)\<rparr>\<rparr>"
    and ex: "executePurchase (e\<lparr>msg_sender := bridgeAddr w\<rparr>) w1
            (i_tokenId (intents (bridge w) iid)) (i_amount (intents (bridge w) iid)) tok
          = Inr (w', evs1)"
    by auto
  have m: "dataCoin w1 = dataCoin w" by (simp add: w1)
  show ?thesis using assms(2) by (simp add: executePurchase_coin[OF ex] m)
qed (use assms in \<open>auto simp: wrap_defs coin_defs token_defs op_defs Let_def
       split: if_splits sum.splits prod.splits\<close>)

lemma run_cid:
  "cidToTokenId (dataCoin w) cid \<noteq> 0 \<Longrightarrow> cidToTokenId (dataCoin (run tr w)) cid \<noteq> 0"
proof (induction tr arbitrary: w)
  case Nil
  then show ?case by simp
next
  case (Cons x tr)
  obtain e c where x: "x = (e, c)" by (cases x)
  have "cidToTokenId (dataCoin (exec e c w)) cid \<noteq> 0"
  proof (cases "dispatch e c w")
    case (Inl err)
    then show ?thesis using Cons.prems by (simp add: exec_def)
  next
    case (Inr res)
    then obtain w' evs r where d: "dispatch e c w = Inr (w', evs, r)"
      by (cases res) auto
    then show ?thesis using dispatch_cid[OF d Cons.prems] by (simp add: exec_def)
  qed
  then show ?case unfolding x run.simps by (rule Cons.IH)
qed

subsection \<open>Facts of the concrete ledgers\<close>

text \<open>
  Evaluations of the ledgers of the previous section, by the simplifier.
\<close>

lemma ready_facts:
  "\<not> mp_paused (marketplace market_ready)"
  "getDatasetInfo (dataCoin market_ready) 1 = Inr (datasets (dataCoin market_ready) 1)"
  "d_isActive (datasets (dataCoin market_ready) 1)"
  "d_price (datasets (dataCoin market_ready) 1) = 1000000"
  "d_creator (datasets (dataCoin market_ready) 1) = 3"
  "d_totalSupply (datasets (dataCoin market_ready) 1) = 5"
  "d_soldSupply (datasets (dataCoin market_ready) 1) = 0"
  "balanceOf (usdc market_ready) 2 = 10000000"
  "balanceOf (usdc market_ready) 3 = 0"
  "balanceOf (usdc market_ready) 101 = 0"
  "platformFeeBps (marketplace market_ready) = 250"
  "marketAddr market_ready = 101"
  "bridgeAddr market_ready = 102"
  "dc_owner (dataCoin market_ready) = 101"
  by (simp_all add: eval_defs)

lemma purchased_record:
  "purchases (marketplace purchased) [1, 2, 1, 1000, 7] =
     \<lparr>p_tokenId = 1, p_buyer = 2, p_amount = 1, p_price = 1000000, p_timestamp = 1000,
      p_isActive = True, p_accessToken = ''token-1''\<rparr>"
  "purchases (marketplace purchased) [] = zeroPurchase"
  by (simp_all add: purchased_def eval_defs)

lemma deactivated_facts:
  "\<not> mp_paused (marketplace deactivated)"
  "getDatasetInfo (dataCoin deactivated) 1 = Inr (datasets (dataCoin deactivated) 1)"
  "\<not> d_isActive (datasets (dataCoin deactivated) 1)"
  by (simp_all add: deactivated_def eval_defs)

lemma created_facts:
  "\<not> br_paused (bridge market_ready)"
  "\<not> supportedChains (bridge market_ready) 999"
  "supportedChains (bridge market_ready) 1"
  "supportedChains (bridge market_ready) 137"
  "\<not> br_paused (bridge deactivated)"
  "supportedChains (bridge deactivated) 1"
  "supportedChains (bridge deactivated) 137"
  by (simp_all add: deactivated_def eval_defs)

lemma minted_once_facts:
  "mintDataset (tx 1) (dataCoin (init dep0)) 3 ''QmTest123'' ''Test Dataset'' ''Description''
     1000000 ''public'' 5 =
     Inr (dataCoin minted_once, [DatasetMinted 1 3 ''QmTest123'' 1000000 ''public''], 1)"
  "dc_owner (dataCoin minted_once) = 1"
  "cidExists (dataCoin minted_once) ''QmTest123''"
  "tokenIds (dataCoin (init dep0)) = 0"
  "(init dep0)\<lparr>dataCoin := dataCoin minted_once\<rparr> = minted_once"
  "dc_owner (dataCoin (init dep0)) = 1"
  by (simp_all add: minted_once_def eval_defs cidExists_def)

lemma created_intent_facts:
  "br_owner (bridge intent_created) = 1"
  "intents (bridge intent_created) [2, 1, 1, 1, 137, 1000, 7] =
     \<lparr>i_intentId = [2, 1, 1, 1, 137, 1000, 7], i_buyer = 2, i_tokenId = 1,
      i_amount = 1, i_sourceChainId = 1, i_destinationChainId = 137,
      i_usdcAmount = 1000000, i_isExecuted = False, i_isSettled = False, i_createdAt = 1000,
      i_executedAt = 0, i_accessToken = []\<rparr>"
  by (simp_all add: intent_created_def eval_defs op_defs)

lemma proved_facts:
  "br_owner (bridge intent_proved) = 1"
  "bridgeAddr intent_proved = 102"
  "intents (bridge intent_proved) [2, 1, 1, 1, 137, 1000, 7] =
     \<lparr>i_intentId = [2, 1, 1, 1, 137, 1000, 7], i_buyer = 2, i_tokenId = 1,
      i_amount = 1, i_sourceChainId = 1, i_destinationChainId = 137,
      i_usdcAmount = 1000000, i_isExecuted = False, i_isSettled = False, i_createdAt = 1000,
      i_executedAt = 0, i_accessToken = []\<rparr>"
  "verifiedProofs (bridge intent_proved) [77]"
  by (simp_all add: intent_proved_def eval_defs op_defs)

lemma stale_facts:
  "br_owner (bridge intent_stale) = 1"
  "bridgeAddr intent_stale = 102"
  "intents (bridge intent_stale) [2, 1, 1, 1, 137, 1000, 7] =
     \<lparr>i_intentId = [2, 1, 1, 1, 137, 1000, 7], i_buyer = 2, i_tokenId = 1,
      i_amount = 1, i_sourceChainId = 1, i_destinationChainId = 137,
      i_usdcAmount = 1000000, i_isExecuted = False, i_isSettled = False, i_createdAt = 1000,
      i_executedAt = 0, i_accessToken = []\<rparr>"
  "verifiedProofs (bridge intent_stale) [77]"
  "executePurchase \<lparr>msg_sender = 102, block_timestamp = 1000, block_number = 7\<rparr>
     intent_stale 1 1 ''token-x'' = Inl DatasetNotActive"
  by (simp_all add: intent_stale_def intent_proved_def eval_defs op_defs)

lemma executed_facts:
  "executeIntent (tx 1) intent_proved [2, 1, 1, 1, 137, 1000, 7] [77] ''token-x'' =
     Inr (intent_executed,
          [AccessGranted 1 102 1 1000,
           PurchaseExecuted [1, 102, 1, 1000, 7] 1 102 1 1000000 25000 975000,
           AccessTokenGenerated [1, 102, 1, 1000, 7] ''token-x'' 87400,
           IntentExecuted [2, 1, 1, 1, 137, 1000, 7] 2 1 ''token-x''])"
  "br_owner (bridge intent_executed) = 1"
  "intents (bridge intent_executed) [2, 1, 1, 1, 137, 1000, 7] =
     \<lparr>i_intentId = [2, 1, 1, 1, 137, 1000, 7], i_buyer = 2, i_tokenId = 1,
      i_amount = 1, i_sourceChainId = 1, i_destinationChainId = 137,
      i_usdcAmount = 1000000, i_isExecuted = True, i_isSettled = False, i_createdAt = 1000,
      i_executedAt = 1000, i_accessToken = ''token-x''\<rparr>"
  "verifiedProofs (bridge intent_executed) [77]"
  by (simp_all add: intent_executed_def intent_proved_def eval_defs op_defs executeIntent_def)

lemma settled_facts:
  "settleIntent (tx 1) (bridge intent_executed) [2, 1, 1, 1, 137, 1000, 7] [77] =
     Inr (bridge intent_settled, [IntentSettled [2, 1, 1, 1, 137, 1000, 7] 2 1000000])"
  "br_owner (bridge intent_settled) = 1"
  "intents (bridge intent_settled) [2, 1, 1, 1, 137, 1000, 7] =
     \<lparr>i_intentId = [2, 1, 1, 1, 137, 1000, 7], i_buyer = 2, i_tokenId = 1,
      i_amount = 1, i_sourceChainId = 1, i_destinationChainId = 137,
      i_usdcAmount = 1000000, i_isExecuted = True, i_isSettled = True, i_createdAt = 1000,
      i_executedAt = 1000, i_accessToken = ''token-x''\<rparr>"
  "verifiedProofs (bridge intent_settled) [77]"
  by (simp_all add: intent_settled_def intent_executed_def intent_proved_def eval_defs op_defs
        executeIntent_def)



lemma recreated_facts:
  "createIntent (tx 2) intent_settled 1 1 1 137 =
     Inr (intent_recreated, [IntentCreated [2, 1, 1, 1, 137, 1000, 7] 2 1 1 137 1000000],
          [2, 1, 1, 1, 137, 1000, 7])"
  "\<not> i_isExecuted (intents (bridge intent_recreated) [2, 1, 1, 1, 137, 1000, 7])"
  "\<not> i_isSettled (intents (bridge intent_recreated) [2, 1, 1, 1, 137, 1000, 7])"
  "buyerIntents (bridge intent_recreated) 2 =
     [[2, 1, 1, 1, 137, 1000, 7], [2, 1, 1, 1, 137, 1000, 7]]"
  by (simp_all add: intent_recreated_def intent_settled_def
        intent_executed_def intent_proved_def eval_defs op_defs executeIntent_def)

section \<open>The fee split of a purchase\<close>

text \<open>
  Claim C1. Every successful \<open>executePurchase\<close> charges \<open>totalCost = price * amount\<close>, keeps
  \<open>platformFee = totalCost * feeBps div 10000\<close> and forwards
  \<open>creatorRevenue = totalCost - platformFee\<close>, so that fee and revenue add up to the cost;
  the \<open>PurchaseExecuted\<close> event carries these two amounts and, for distinct buyer,
  creator and marketplace, the balances move by them. With the fee at 250 basis points,
  price 1000000 and quantity 1 the creator receives 975000, the marketplace keeps 25000 and
  a buyer holding 10000000 ends with 9000000.
\<close>

theorem executePurchase_fee_split:
  assumes "executePurchase e w tokenId amount accessToken = Inr (w', evs)"
  shows "let p = d_price (datasets (dataCoin w) tokenId);
             creator = d_creator (datasets (dataCoin w) tokenId);
             buyer = msg_sender e;
             feeBps = platformFeeBps (marketplace w);
             totalCost = p * amount;
             platformFee = totalCost * feeBps div 10000;
             creatorRevenue = totalCost - platformFee
         in platformFee + creatorRevenue = totalCost \<and>
            PurchaseExecuted
              (keccak256 [tokenId, buyer, amount, block_timestamp e, block_number e])
              tokenId buyer amount p platformFee creatorRevenue \<in> set evs \<and>
            (\<exists>t1. transferFrom (marketAddr w) (usdc w) buyer (marketAddr w) totalCost = Inr t1 \<and>
                  transfer (marketAddr w) t1 creator creatorRevenue = Inr (usdc w')) \<and>
            (buyer \<noteq> creator \<and> buyer \<noteq> marketAddr w \<and> creator \<noteq> marketAddr w \<longrightarrow>
               balanceOf (usdc w') buyer = balanceOf (usdc w) buyer - totalCost \<and>
               balanceOf (usdc w') creator = balanceOf (usdc w) creator + creatorRevenue \<and>
               balanceOf (usdc w') (marketAddr w) =
                 balanceOf (usdc w) (marketAddr w) + platformFee) \<and>
            (feeBps = 250 \<and> p = 1000000 \<and> amount = 1 \<and>
             balanceOf (usdc w) buyer = 10000000 \<and>
             buyer \<noteq> creator \<and> buyer \<noteq> marketAddr w \<and> creator \<noteq> marketAddr w \<longrightarrow>
               balanceOf (usdc w') buyer = 9000000 \<and>
               balanceOf (usdc w') creator = balanceOf (usdc w) creator + 975000 \<and>
               balanceOf (usdc w') (marketAddr w) = balanceOf (usdc w) (marketAddr w) + 25000)"
proof -
  define p where "p = d_price (datasets (dataCoin w) tokenId)"
  define creator where "creator = d_creator (datasets (dataCoin w) tokenId)"
  define cost where "cost = p * amount"
  define fee where "fee = cost * platformFeeBps (marketplace w) div 10000"
  have fee_le: "fee \<le> cost"
    using executePurchase_pre(7)[OF assms] by (simp add: fee_def cost_def p_def)
  have sum: "fee + (cost - fee) = cost"
    using fee_le by simp
  have ev: "PurchaseExecuted
              (keccak256 [tokenId, msg_sender e, amount, block_timestamp e, block_number e])
              tokenId (msg_sender e) amount p fee (cost - fee) \<in> set evs"
    by (simp add: executePurchase_events[OF assms] fee_def cost_def p_def)
  obtain t1 where t1: "transferFrom (marketAddr w) (usdc w) (msg_sender e) (marketAddr w) cost = Inr t1"
    and t2: "transfer (marketAddr w) t1 creator (cost - fee) = Inr (usdc w')"
    using executePurchase_token[OF assms] by (auto simp: fee_def cost_def p_def creator_def)
  have bal: "balanceOf (usdc w') (msg_sender e) = balanceOf (usdc w) (msg_sender e) - cost \<and>
             balanceOf (usdc w') creator = balanceOf (usdc w) creator + (cost - fee) \<and>
             balanceOf (usdc w') (marketAddr w) = balanceOf (usdc w) (marketAddr w) + fee"
    if "msg_sender e \<noteq> creator" "msg_sender e \<noteq> marketAddr w" "creator \<noteq> marketAddr w"
    using token_pull_pay[OF t1 t2 that] fee_le by (simp add: balanceOf_def)
  have scen: "balanceOf (usdc w') (msg_sender e) = 9000000 \<and>
              balanceOf (usdc w') creator = balanceOf (usdc w) creator + 975000 \<and>
              balanceOf (usdc w') (marketAddr w) = balanceOf (usdc w) (marketAddr w) + 25000"
    if "platformFeeBps (marketplace w) = 250" "p = 1000000" "amount = 1"
       "balanceOf (usdc w) (msg_sender e) = 10000000"
       "msg_sender e \<noteq> creator" "msg_sender e \<noteq> marketAddr w" "creator \<noteq> marketAddr w"
  proof -
    have c: "cost = 1000000" using that by (simp add: cost_def)
    have f: "fee = 25000" using that c by (simp add: fee_def)
    show ?thesis using bal[OF that(5,6,7)] that(4) c f by simp
  qed
  have tr: "\<exists>t1. transferFrom (marketAddr w) (usdc w) (msg_sender e) (marketAddr w) cost = Inr t1 \<and>
                 transfer (marketAddr w) t1 creator (cost - fee) = Inr (usdc w')"
    using t1 t2 by blast
  show ?thesis
    unfolding Let_def
    using sum ev tr bal scen
    by (simp add: p_def creator_def cost_def fee_def)
qed

theorem executePurchase_fee_split_witness:
  "executePurchase (tx 2) market_ready 1 1 ''token-1'' =
     Inr (purchased,
          [AccessGranted 1 2 1 1000,
           PurchaseExecuted [1, 2, 1, 1000, 7] 1 2 1 1000000 25000 975000,
           AccessTokenGenerated [1, 2, 1, 1000, 7] ''token-1'' 87400]) \<and>
   platformFeeBps (marketplace market_ready) = 250 \<and>
   balanceOf (usdc market_ready) 2 = 10000000 \<and>
   balanceOf (usdc purchased) 2 = 9000000 \<and>
   balanceOf (usdc purchased) 3 = 975000 \<and>
   balanceOf (usdc purchased) 101 = 25000"
proof -
  have run: "executePurchase (tx 2) market_ready 1 1 ''token-1'' =
     Inr (purchased,
          [AccessGranted 1 2 1 1000,
           PurchaseExecuted [1, 2, 1, 1000, 7] 1 2 1 1000000 25000 975000,
           AccessTokenGenerated [1, 2, 1, 1000, 7] ''token-1'' 87400])"
    by (simp add: purchased_def eval_defs)
  have who: "msg_sender (tx 2) = 2"
    by (simp add: tx_def)
  show ?thesis
    using executePurchase_fee_split[OF run] run who ready_facts
    by (simp add: Let_def del: One_nat_def)
qed

section \<open>The lifecycle of an intent\<close>

text \<open>
  Claim C2, as written, fails for a caller who is not the owner of the bridge:
  \<open>onlyOwner\<close> runs before the body of \<open>settleIntent\<close>, so a call on an intent that exists
  and was never executed is rejected with \<open>OwnableUnauthorizedAccount\<close> and not with
  \<open>IntentNotExecuted\<close>.
\<close>

theorem intent_lifecycle_violations:
  "i_buyer (intents (bridge intent_created) [2, 1, 1, 1, 137, 1000, 7]) = 2 \<and>
   \<not> i_isExecuted (intents (bridge intent_created) [2, 1, 1, 1, 137, 1000, 7]) \<and>
   settleIntent (tx 2) (bridge intent_created) [2, 1, 1, 1, 137, 1000, 7] [77] =
     Inl (OwnableUnauthorizedAccount 2) \<and>
   settleIntent (tx 2) (bridge intent_created) [2, 1, 1, 1, 137, 1000, 7] [77] \<noteq>
     Inl IntentNotExecuted"
  by (simp add: created_intent_facts settleIntent_def tx_def del: One_nat_def)

text \<open>
  The last part of claim C2 fails as well, and not by design. \<open>createIntent\<close> stores the
  new intent under an id derived from caller, dataset, quantity, chains, time and block
  number, without looking at what the id already holds. A request repeated by the same
  caller in the same block falls on the same id: the stored intent is overwritten, its
  \<open>isExecuted\<close> and \<open>isSettled\<close> flags go from true back to false, and the id is listed
  twice for the buyer.
\<close>

lemma createIntent_resets_flags:
  "i_isExecuted (intents (bridge intent_settled) [2, 1, 1, 1, 137, 1000, 7]) \<and>
   i_isSettled (intents (bridge intent_settled) [2, 1, 1, 1, 137, 1000, 7]) \<and>
   createIntent (tx 2) intent_settled 1 1 1 137 =
     Inr (intent_recreated, [IntentCreated [2, 1, 1, 1, 137, 1000, 7] 2 1 1 137 1000000],
          [2, 1, 1, 1, 137, 1000, 7]) \<and>
   \<not> i_isExecuted (intents (bridge intent_recreated) [2, 1, 1, 1, 137, 1000, 7]) \<and>
   \<not> i_isSettled (intents (bridge intent_recreated) [2, 1, 1, 1, 137, 1000, 7]) \<and>
   buyerIntents (bridge intent_recreated) 2 =
     [[2, 1, 1, 1, 137, 1000, 7], [2, 1, 1, 1, 137, 1000, 7]]"
  by (simp add: recreated_facts settled_facts del: One_nat_def)

text \<open>
  Claim C2, amended. For an intent that exists and a call made by the owner of the
  bridge: \<open>settleIntent\<close> reverts with \<open>IntentNotExecuted\<close> while the intent is not
  executed; \<open>executeIntent\<close> on an executed intent reverts with \<open>IntentAlreadyExecuted\<close>;
  \<open>settleIntent\<close> on an executed and settled intent reverts with \<open>IntentAlreadyExecuted\<close>.
  For every caller these calls revert with some error. No operation of the system other
  than a \<open>createIntent\<close> that derives the id of this very intent turns \<open>isExecuted\<close> or
  \<open>isSettled\<close> from true to false; about such a \<open>createIntent\<close> nothing is stated.
\<close>

theorem intent_lifecycle:
  "(br_owner (bridge w) = msg_sender e \<and> i_buyer (intents (bridge w) intentId) \<noteq> 0 \<longrightarrow>
      (\<not> i_isExecuted (intents (bridge w) intentId) \<longrightarrow>
         settleIntent e (bridge w) intentId proofHash = Inl IntentNotExecuted) \<and>
      (i_isExecuted (intents (bridge w) intentId) \<longrightarrow>
         executeIntent e w intentId proofHash tok = Inl IntentAlreadyExecuted) \<and>
      (i_isExecuted (intents (bridge w) intentId) \<and> i_isSettled (intents (bridge w) intentId) \<longrightarrow>
         settleIntent e (bridge w) intentId proofHash = Inl IntentAlreadyExecuted)) \<and>
   (\<not> i_isExecuted (intents (bridge w) intentId) \<longrightarrow>
      isl (settleIntent e (bridge w) intentId proofHash)) \<and>
   (i_isExecuted (intents (bridge w) intentId) \<longrightarrow>
      isl (executeIntent e w intentId proofHash tok)) \<and>
   (i_isSettled (intents (bridge w) intentId) \<longrightarrow>
      isl (settleIntent e (bridge w) intentId proofHash)) \<and>
   ((\<forall>t a s d. c = CreateIntent t a s d \<longrightarrow>
        keccak256 [msg_sender e, t, a, s, d, block_timestamp e, block_number e] \<noteq> intentId) \<longrightarrow>
      (i_isExecuted (intents (bridge w) intentId) \<longrightarrow>
         i_isExecuted (intents (bridge (exec e c w)) intentId)) \<and>
      (i_isSettled (intents (bridge w) intentId) \<longrightarrow>
         i_isSettled (intents (bridge (exec e c w)) intentId)))"
proof -
  have errs: "br_owner (bridge w) = msg_sender e \<and> i_buyer (intents (bridge w) intentId) \<noteq> 0 \<longrightarrow>
      (\<not> i_isExecuted (intents (bridge w) intentId) \<longrightarrow>
         settleIntent e (bridge w) intentId proofHash = Inl IntentNotExecuted) \<and>
      (i_isExecuted (intents (bridge w) intentId) \<longrightarrow>
         executeIntent e w intentId proofHash tok = Inl IntentAlreadyExecuted) \<and>
      (i_isExecuted (intents (bridge w) intentId) \<and> i_isSettled (intents (bridge w) intentId) \<longrightarrow>
         settleIntent e (bridge w) intentId proofHash = Inl IntentAlreadyExecuted)"
    by (simp add: settleIntent_def executeIntent_def Let_def)
  have fails: "(\<not> i_isExecuted (intents (bridge w) intentId) \<longrightarrow>
      isl (settleIntent e (bridge w) intentId proofHash)) \<and>
   (i_isExecuted (intents (bridge w) intentId) \<longrightarrow>
      isl (executeIntent e w intentId proofHash tok)) \<and>
   (i_isSettled (intents (bridge w) intentId) \<longrightarrow>
      isl (settleIntent e (bridge w) intentId proofHash))"
    by (simp add: settleIntent_def executeIntent_def Let_def)
  have mono: "(i_isExecuted (intents (bridge w) intentId) \<longrightarrow>
         i_isExecuted (intents (bridge (exec e c w)) intentId)) \<and>
      (i_isSettled (intents (bridge w) intentId) \<longrightarrow>
         i_isSettled (intents (bridge (exec e c w)) intentId))"
    if ne: "\<forall>t a s d. c = CreateIntent t a s d \<longrightarrow>
        keccak256 [msg_sender e, t, a, s, d, block_timestamp e, block_number e] \<noteq> intentId"
  proof (cases "dispatch e c w")
    case (Inl err)
    then show ?thesis by (simp add: exec_def)
  next
    case (Inr res)
    then obtain w2 evs2 r2 where d: "dispatch e c w = Inr (w2, evs2, r2)"
      by (cases res) auto
    then have ex: "exec e c w = w2" by (simp add: exec_def)
    have ne': "\<And>t a s d. c = CreateIntent t a s d \<Longrightarrow>
        keccak256 [msg_sender e, t, a, s, d, block_timestamp e, block_number e] \<noteq> intentId"
      using ne by blast
    show ?thesis
      using dispatch_intent_flags[OF d ne'] by (simp add: ex)
  qed
  show ?thesis using errs fails mono by blast
qed

theorem intent_lifecycle_witness:
  "settleIntent (tx 1) (bridge intent_proved) [2, 1, 1, 1, 137, 1000, 7] [77] =
     Inl IntentNotExecuted \<and>
   executeIntent (tx 1) intent_executed [2, 1, 1, 1, 137, 1000, 7] [77] ''token-z'' =
     Inl IntentAlreadyExecuted \<and>
   settleIntent (tx 1) (bridge intent_settled) [2, 1, 1, 1, 137, 1000, 7] [77] =
     Inl IntentAlreadyExecuted \<and>
   i_isExecuted (intents (bridge (exec (tx 2) (CreateIntent 1 2 1 137) intent_settled))
     [2, 1, 1, 1, 137, 1000, 7]) \<and>
   i_isSettled (intents (bridge (exec (tx 2) (CreateIntent 1 2 1 137) intent_settled))
     [2, 1, 1, 1, 137, 1000, 7])"
proof -
  let ?i = "[2, 1, 1, 1, 137, 1000, 7]"
  have p1: "br_owner (bridge intent_proved) = msg_sender (tx 1)"
           "i_buyer (intents (bridge intent_proved) ?i) \<noteq> 0"
           "\<not> i_isExecuted (intents (bridge intent_proved) ?i)"
    by (simp_all add: proved_facts tx_def del: One_nat_def)
  have a: "settleIntent (tx 1) (bridge intent_proved) ?i [77] = Inl IntentNotExecuted"
    using intent_lifecycle[where e = "tx 1" and w = intent_proved and intentId = ?i
            and proofHash = "[77]"] p1
    by blast
  have p2: "br_owner (bridge intent_executed) = msg_sender (tx 1)"
           "i_buyer (intents (bridge intent_executed) ?i) \<noteq> 0"
           "i_isExecuted (intents (bridge intent_executed) ?i)"
    by (simp_all add: executed_facts tx_def del: One_nat_def)
  have b: "executeIntent (tx 1) intent_executed ?i [77] ''token-z'' = Inl IntentAlreadyExecuted"
    using intent_lifecycle[where e = "tx 1" and w = intent_executed and intentId = ?i
            and proofHash = "[77]" and tok = "''token-z''"] p2
    by blast
  have p3: "br_owner (bridge intent_settled) = msg_sender (tx 1)"
           "i_buyer (intents (bridge intent_settled) ?i) \<noteq> 0"
           "i_isExecuted (intents (bridge intent_settled) ?i)"
           "i_isSettled (intents (bridge intent_settled) ?i)"
    by (simp_all add: settled_facts tx_def del: One_nat_def)
  have c: "settleIntent (tx 1) (bridge intent_settled) ?i [77] = Inl IntentAlreadyExecuted"
    using intent_lifecycle[where e = "tx 1" and w = intent_settled and intentId = ?i
            and proofHash = "[77]"] p3
    by blast
  have other: "\<forall>t a s d. CreateIntent 1 2 1 137 = CreateIntent t a s d \<longrightarrow>
        keccak256 [msg_sender (tx 2), t, a, s, d, block_timestamp (tx 2), block_number (tx 2)] \<noteq> ?i"
    by (simp add: keccak256_def tx_def)
  have d: "i_isExecuted (intents (bridge (exec (tx 2) (CreateIntent 1 2 1 137) intent_settled)) ?i)"
          "i_isSettled (intents (bridge (exec (tx 2) (CreateIntent 1 2 1 137) intent_settled)) ?i)"
    using intent_lifecycle[where e = "tx 2" and w = intent_settled and intentId = ?i
            and c = "CreateIntent 1 2 1 137"] p3(3,4) other
    by blast+
  show ?thesis using a b c d by blast
qed

section \<open>Atomicity of intent execution\<close>

text \<open>
  Claim C3. If the purchase that \<open>executeIntent\<close> delegates to the marketplace (made with
  the bridge as caller, for the dataset and quantity of the intent) reverts, then
  \<open>executeIntent\<close> reverts; when its own checks had passed it reverts with the very error
  of the purchase. The transaction leaves the ledger as it was: the intent keeps
  \<open>isExecuted = False\<close>, and \<open>executedAt\<close> and \<open>accessToken\<close> are unchanged, although
  all three were written before the call to the marketplace.
\<close>

theorem executeIntent_atomic:
  "executePurchase (e\<lparr>msg_sender := bridgeAddr w\<rparr>) w
     (i_tokenId (intents (bridge w) intentId)) (i_amount (intents (bridge w) intentId))
     accessToken = Inl err \<longrightarrow>
   isl (executeIntent e w intentId proofHash accessToken) \<and>
   (br_owner (bridge w) = msg_sender e \<and> i_buyer (intents (bridge w) intentId) \<noteq> 0 \<and>
    \<not> i_isExecuted (intents (bridge w) intentId) \<and> verifiedProofs (bridge w) proofHash \<longrightarrow>
      executeIntent e w intentId proofHash accessToken = Inl err \<and>
      \<not> i_isExecuted
          (intents (bridge (exec e (ExecuteIntent intentId proofHash accessToken) w)) intentId)) \<and>
   exec e (ExecuteIntent intentId proofHash accessToken) w = w \<and>
   i_isExecuted
     (intents (bridge (exec e (ExecuteIntent intentId proofHash accessToken) w)) intentId) =
     i_isExecuted (intents (bridge w) intentId) \<and>
   i_executedAt
     (intents (bridge (exec e (ExecuteIntent intentId proofHash accessToken) w)) intentId) =
     i_executedAt (intents (bridge w) intentId) \<and>
   i_accessToken
     (intents (bridge (exec e (ExecuteIntent intentId proofHash accessToken) w)) intentId) =
     i_accessToken (intents (bridge w) intentId)"
proof
  assume sub: "executePurchase (e\<lparr>msg_sender := bridgeAddr w\<rparr>) w
     (i_tokenId (intents (bridge w) intentId)) (i_amount (intents (bridge w) intentId))
     accessToken = Inl err"
  have f: "isl (executeIntent e w intentId proofHash accessToken)"
    by (rule executeIntent_sub_fails(1)[OF sub])
  then have unch: "exec e (ExecuteIntent intentId proofHash accessToken) w = w"
    by (cases "executeIntent e w intentId proofHash accessToken")
       (simp_all add: exec_def on_world_def)
  show "isl (executeIntent e w intentId proofHash accessToken) \<and>
   (br_owner (bridge w) = msg_sender e \<and> i_buyer (intents (bridge w) intentId) \<noteq> 0 \<and>
    \<not> i_isExecuted (intents (bridge w) intentId) \<and> verifiedProofs (bridge w) proofHash \<longrightarrow>
      executeIntent e w intentId proofHash accessToken = Inl err \<and>
      \<not> i_isExecuted
          (intents (bridge (exec e (ExecuteIntent intentId proofHash accessToken) w)) intentId)) \<and>
   exec e (ExecuteIntent intentId proofHash accessToken) w = w \<and>
   i_isExecuted
     (intents (bridge (exec e (ExecuteIntent intentId proofHash accessToken) w)) intentId) =
     i_isExecuted (intents (bridge w) intentId) \<and>
   i_executedAt
     (intents (bridge (exec e (ExecuteIntent intentId proofHash accessToken) w)) intentId) =
     i_executedAt (intents (bridge w) intentId) \<and>
   i_accessToken
     (intents (bridge (exec e (ExecuteIntent intentId proofHash accessToken) w)) intentId) =
     i_accessToken (intents (bridge w) intentId)"
    using f executeIntent_sub_fails(2)[OF sub] by (simp add: unch)
qed

theorem executeIntent_atomic_witness:
  "executePurchase ((tx 1)\<lparr>msg_sender := bridgeAddr intent_stale\<rparr>) intent_stale 1 1 ''token-x''
     = Inl DatasetNotActive \<and>
   executeIntent (tx 1) intent_stale [2, 1, 1, 1, 137, 1000, 7] [77] ''token-x''
     = Inl DatasetNotActive \<and>
   exec (tx 1) (ExecuteIntent [2, 1, 1, 1, 137, 1000, 7] [77] ''token-x'') intent_stale
     = intent_stale \<and>
   i_isExecuted (intents (bridge (exec (tx 1)
       (ExecuteIntent [2, 1, 1, 1, 137, 1000, 7] [77] ''token-x'') intent_stale))
       [2, 1, 1, 1, 137, 1000, 7]) = False \<and>
   i_executedAt (intents (bridge (exec (tx 1)
       (ExecuteIntent [2, 1, 1, 1, 137, 1000, 7] [77] ''token-x'') intent_stale))
       [2, 1, 1, 1, 137, 1000, 7]) = 0 \<and>
   i_accessToken (intents (bridge (exec (tx 1)
       (ExecuteIntent [2, 1, 1, 1, 137, 1000, 7] [77] ''token-x'') intent_stale))
       [2, 1, 1, 1, 137, 1000, 7]) = []"
proof -
  have sub: "executePurchase ((tx 1)\<lparr>msg_sender := bridgeAddr intent_stale\<rparr>) intent_stale
       (i_tokenId (intents (bridge intent_stale) [2, 1, 1, 1, 137, 1000, 7]))
       (i_amount (intents (bridge intent_stale) [2, 1, 1, 1, 137, 1000, 7])) ''token-x''
     = Inl DatasetNotActive"
    by (simp add: stale_facts tx_def del: One_nat_def)
  have pre: "br_owner (bridge intent_stale) = msg_sender (tx 1)"
            "i_buyer (intents (bridge intent_stale) [2, 1, 1, 1, 137, 1000, 7]) \<noteq> 0"
            "\<not> i_isExecuted (intents (bridge intent_stale) [2, 1, 1, 1, 137, 1000, 7])"
    by (simp_all add: stale_facts tx_def del: One_nat_def)
  show ?thesis
    using executeIntent_atomic[where e = "tx 1" and w = intent_stale
            and intentId = "[2, 1, 1, 1, 137, 1000, 7]" and accessToken = "''token-x''"
            and err = DatasetNotActive and proofHash = "[77]"] sub pre stale_facts(4)
    by (simp add: stale_facts tx_def del: One_nat_def)
qed

section \<open>Verification of access tokens\<close>

text \<open>
  What holds of \<open>verifyAccessToken\<close> on every ledger reached from a deployment: it
  reverts with \<open>PurchaseNotFound\<close> when the purchase record is absent or inactive; for
  an active record it returns false when the token differs from the stored one or when
  the time is past \<open>timestamp + 86400\<close>, and true for the stored token up to and
  including \<open>timestamp + 86400\<close>. In the ledger that a successful \<open>executePurchase\<close>
  returns, the stored token is the one passed to it. Whether the stored token is still
  the issued one later on is another matter, settled below.
\<close>

theorem verifyAccessToken_verdicts:
  "(let m = marketplace (run tr (init d)); purchase = purchases m purchaseId in
     (\<not> p_isActive purchase \<longrightarrow> verifyAccessToken e m purchaseId token = Inl PurchaseNotFound) \<and>
     (p_isActive purchase \<and> token \<noteq> p_accessToken purchase \<longrightarrow>
        verifyAccessToken e m purchaseId token = Inr False) \<and>
     (p_isActive purchase \<and> block_timestamp e > p_timestamp purchase + 86400 \<longrightarrow>
        verifyAccessToken e m purchaseId token = Inr False) \<and>
     (p_isActive purchase \<and> block_timestamp e \<le> p_timestamp purchase + 86400 \<longrightarrow>
        verifyAccessToken e m purchaseId (p_accessToken purchase) = Inr True)) \<and>
   (executePurchase e0 w tokenId amount issued = Inr (w', evs) \<longrightarrow>
      verifyAccessToken e (marketplace w')
        (keccak256 [tokenId, msg_sender e0, amount, block_timestamp e0, block_number e0]) issued
      = Inr (block_timestamp e \<le> block_timestamp e0 + 86400))"
proof -
  have "p_isActive (purchases (marketplace (run tr (init d))) purchaseId) \<Longrightarrow>
     p_timestamp (purchases (marketplace (run tr (init d))) purchaseId) + 86400 \<le> MAX_UINT256"
    by (rule expiry_run) (simp_all add: init_def zeroPurchase_def)
  then have first: "let m = marketplace (run tr (init d)); purchase = purchases m purchaseId in
     (\<not> p_isActive purchase \<longrightarrow> verifyAccessToken e m purchaseId token = Inl PurchaseNotFound) \<and>
     (p_isActive purchase \<and> token \<noteq> p_accessToken purchase \<longrightarrow>
        verifyAccessToken e m purchaseId token = Inr False) \<and>
     (p_isActive purchase \<and> block_timestamp e > p_timestamp purchase + 86400 \<longrightarrow>
        verifyAccessToken e m purchaseId token = Inr False) \<and>
     (p_isActive purchase \<and> block_timestamp e \<le> p_timestamp purchase + 86400 \<longrightarrow>
        verifyAccessToken e m purchaseId (p_accessToken purchase) = Inr True)"
    by (auto simp: verifyAccessToken_def Let_def)
  have second: "verifyAccessToken e (marketplace w')
        (keccak256 [tokenId, msg_sender e0, amount, block_timestamp e0, block_number e0]) issued
      = Inr (block_timestamp e \<le> block_timestamp e0 + 86400)"
    if ex: "executePurchase e0 w tokenId amount issued = Inr (w', evs)"
    using executePurchase_pre(9)[OF ex]
    by (simp add: executePurchase_market[OF ex] verifyAccessToken_def)
  show ?thesis using first second by blast
qed

theorem verifyAccessToken_verdicts_witness:
  "verifyAccessToken (tx 2) (marketplace purchased) [] ''token-1'' = Inl PurchaseNotFound \<and>
   verifyAccessToken (tx 2) (marketplace purchased) [1, 2, 1, 1000, 7] ''token-2'' = Inr False \<and>
   verifyAccessToken \<lparr>msg_sender = 2, block_timestamp = 87401, block_number = 9\<rparr>
     (marketplace purchased) [1, 2, 1, 1000, 7] ''token-1'' = Inr False \<and>
   verifyAccessToken \<lparr>msg_sender = 2, block_timestamp = 87400, block_number = 9\<rparr>
     (marketplace purchased) [1, 2, 1, 1000, 7] ''token-1'' = Inr True \<and>
   executePurchase (tx 2) market_ready 1 1 ''token-1'' =
     Inr (purchased,
          [AccessGranted 1 2 1 1000,
           PurchaseExecuted [1, 2, 1, 1000, 7] 1 2 1 1000000 25000 975000,
           AccessTokenGenerated [1, 2, 1, 1000, 7] ''token-1'' 87400])"
proof -
  let ?tr = "ready_trace @ [(tx 2, ExecutePurchase 1 1 ''token-1'')]"
  let ?late = "\<lparr>msg_sender = 2, block_timestamp = 87401, block_number = 9\<rparr>"
  let ?intime = "\<lparr>msg_sender = 2, block_timestamp = 87400, block_number = 9\<rparr>"
  have ex: "executePurchase (tx 2) market_ready 1 1 ''token-1'' =
     Inr (purchased,
          [AccessGranted 1 2 1 1000,
           PurchaseExecuted [1, 2, 1, 1000, 7] 1 2 1 1000000 25000 975000,
           AccessTokenGenerated [1, 2, 1, 1000, 7] ''token-1'' 87400])"
    by (simp add: purchased_def eval_defs)
  have p: "purchased = run ?tr (init dep0)" by (simp add: purchased_def)
  show ?thesis
    using verifyAccessToken_verdicts[of ?tr dep0 "[]" "tx 2" "''token-1''"]
          verifyAccessToken_verdicts[of ?tr dep0 "[1, 2, 1, 1000, 7]" "tx 2" "''token-2''"]
          verifyAccessToken_verdicts[of ?tr dep0 "[1, 2, 1, 1000, 7]" ?late "''token-1''"]
          verifyAccessToken_verdicts[of ?tr dep0 "[1, 2, 1, 1000, 7]" ?intime "''token-1''"]
          ex
    unfolding p[symmetric] Let_def
    by (simp add: purchased_record zeroPurchase_def tx_def del: One_nat_def)
qed

text \<open>
  Claim C4 does not hold of the code: the token issued by a purchase does not verify at
  every time up to its expiry. The purchase id has no per-call sequence, so a second
  purchase of the same quantity of the same dataset by the same buyer in the same block
  is stored under the id of the first and replaces its access token. On the ledger
  \<open>bought_twice\<close>, reached from the deployment, the record is active and the time is
  within \<open>timestamp + 86400\<close>, yet \<open>verifyAccessToken\<close> answers false for \<open>token-A\<close>, which
  the first purchase issued and which verified until the second purchase.
\<close>

theorem issued_token_stops_verifying:
  "bought_twice =
     run (ready_trace @ [(tx 2, ExecutePurchase 1 1 ''token-A''),
                         (tx 2, ExecutePurchase 1 1 ''token-B'')]) (init dep0) \<and>
   executePurchase (tx 2) market_ready 1 1 ''token-A'' =
     Inr (bought_once,
          [AccessGranted 1 2 1 1000,
           PurchaseExecuted [1, 2, 1, 1000, 7] 1 2 1 1000000 25000 975000,
           AccessTokenGenerated [1, 2, 1, 1000, 7] ''token-A'' 87400]) \<and>
   verifyAccessToken (tx 2) (marketplace bought_once) [1, 2, 1, 1000, 7] ''token-A'' = Inr True \<and>
   p_isActive (purchases (marketplace bought_twice) [1, 2, 1, 1000, 7]) \<and>
   p_timestamp (purchases (marketplace bought_twice) [1, 2, 1, 1000, 7]) = 1000 \<and>
   block_timestamp (tx 2) \<le>
     p_timestamp (purchases (marketplace bought_twice) [1, 2, 1, 1000, 7]) + 86400 \<and>
   verifyAccessToken (tx 2) (marketplace bought_twice) [1, 2, 1, 1000, 7] ''token-A'' = Inr False \<and>
   verifyAccessToken \<lparr>msg_sender = 2, block_timestamp = 87400, block_number = 9\<rparr>
     (marketplace bought_twice) [1, 2, 1, 1000, 7] ''token-A'' = Inr False"
proof -
  have reached: "bought_twice =
     run (ready_trace @ [(tx 2, ExecutePurchase 1 1 ''token-A''),
                         (tx 2, ExecutePurchase 1 1 ''token-B'')]) (init dep0)"
    by (simp add: bought_twice_def bought_once_def market_ready_def ready_trace_def)
  have rest: "executePurchase (tx 2) market_ready 1 1 ''token-A'' =
     Inr (bought_once,
          [AccessGranted 1 2 1 1000,
           PurchaseExecuted [1, 2, 1, 1000, 7] 1 2 1 1000000 25000 975000,
           AccessTokenGenerated [1, 2, 1, 1000, 7] ''token-A'' 87400]) \<and>
   verifyAccessToken (tx 2) (marketplace bought_once) [1, 2, 1, 1000, 7] ''token-A'' = Inr True \<and>
   p_isActive (purchases (marketplace bought_twice) [1, 2, 1, 1000, 7]) \<and>
   p_timestamp (purchases (marketplace bought_twice) [1, 2, 1, 1000, 7]) = 1000 \<and>
   block_timestamp (tx 2) \<le>
     p_timestamp (purchases (marketplace bought_twice) [1, 2, 1, 1000, 7]) + 86400 \<and>
   verifyAccessToken (tx 2) (marketplace bought_twice) [1, 2, 1, 1000, 7] ''token-A'' = Inr False \<and>
   verifyAccessToken \<lparr>msg_sender = 2, block_timestamp = 87400, block_number = 9\<rparr>
     (marketplace bought_twice) [1, 2, 1, 1000, 7] ''token-A'' = Inr False"
    by (simp add: bought_twice_def bought_once_def eval_defs verifyAccessToken_def)
  show ?thesis using reached rest by (rule conjI)
qed

section \<open>Minting datasets\<close>

text \<open>
  Claim C5, as written, fails on the order of the checks of \<open>mintDataset\<close>: the price is
  tested before the content reference is looked up, so a later mint that reuses a
  registered reference with price zero is rejected with ``Price must be greater than 0''
  and not with the duplicate error.
\<close>

theorem mintDataset_duplicate_price_zero:
  "cidExists (dataCoin minted_once) ''QmTest123'' \<and>
   mintDataset (tx 1) (dataCoin minted_once) 3 ''QmTest123'' ''Second Dataset'' ''Description''
     0 ''private'' 0 = Inl (Revert ''Price must be greater than 0'') \<and>
   mintDataset (tx 1) (dataCoin minted_once) 3 ''QmTest123'' ''Second Dataset'' ''Description''
     0 ''private'' 0 \<noteq> Inl (Revert ''Dataset with this CID already exists'')"
  by (simp add: minted_once_facts mintDataset_def tx_def del: One_nat_def)

text \<open>
  Claim C5, amended. Along any trace from a deployment the successful mints return
  1, 2, 3, ... in this order. After a successful mint with content reference \<open>cid\<close>,
  \<open>cidExists cid\<close> holds at once and after any further operations, and every later mint
  with this reference reverts: with ``Dataset with this CID already exists'' when it is
  made by the owner of the registry with a non-empty name and a positive price. A mint
  by the owner reverts with ``CID cannot be empty'' when the reference is empty,
  otherwise with ``Name cannot be empty'' when the name is empty, otherwise with ``Price
  must be greater than 0'' when the price is zero; for any caller each of these three
  conditions makes the mint revert.
\<close>

theorem mintDataset_ids_and_duplicates:
  "minted tr (init d) = [1 ..< Suc (length (minted tr (init d)))] \<and>
   (mintDataset e (dataCoin w) to cid name description price accessPolicy maxSupply
      = Inr (c', evs, newTokenId) \<longrightarrow>
      newTokenId = tokenIds (dataCoin w) + 1 \<and>
      tokenIds c' = newTokenId \<and>
      cidExists c' cid \<and>
      cidExists (dataCoin (run later (w\<lparr>dataCoin := c'\<rparr>))) cid \<and>
      isl (mintDataset e2 (dataCoin (run later (w\<lparr>dataCoin := c'\<rparr>))) to2 cid name2
             description2 price2 accessPolicy2 maxSupply2) \<and>
      (dc_owner (dataCoin (run later (w\<lparr>dataCoin := c'\<rparr>))) = msg_sender e2 \<and>
       name2 \<noteq> [] \<and> 0 < price2 \<longrightarrow>
         mintDataset e2 (dataCoin (run later (w\<lparr>dataCoin := c'\<rparr>))) to2 cid name2
           description2 price2 accessPolicy2 maxSupply2
         = Inl (Revert ''Dataset with this CID already exists''))) \<and>
   (dc_owner c3 = msg_sender e3 \<longrightarrow>
      (cid3 = [] \<longrightarrow>
         mintDataset e3 c3 to3 cid3 name3 description3 price3 accessPolicy3 maxSupply3
         = Inl (Revert ''CID cannot be empty'')) \<and>
      (cid3 \<noteq> [] \<and> name3 = [] \<longrightarrow>
         mintDataset e3 c3 to3 cid3 name3 description3 price3 accessPolicy3 maxSupply3
         = Inl (Revert ''Name cannot be empty'')) \<and>
      (cid3 \<noteq> [] \<and> name3 \<noteq> [] \<and> price3 = 0 \<longrightarrow>
         mintDataset e3 c3 to3 cid3 name3 description3 price3 accessPolicy3 maxSupply3
         = Inl (Revert ''Price must be greater than 0''))) \<and>
   (cid3 = [] \<or> name3 = [] \<or> price3 = 0 \<longrightarrow>
      isl (mintDataset e3 c3 to3 cid3 name3 description3 price3 accessPolicy3 maxSupply3))"
proof -
  have ids: "minted tr (init d) = [1 ..< Suc (length (minted tr (init d)))]"
    using minted_from[of tr "init d"] by (simp add: init_def)
  have ok: "newTokenId = tokenIds (dataCoin w) + 1 \<and>
      tokenIds c' = newTokenId \<and>
      cidExists c' cid \<and>
      cidExists (dataCoin (run later (w\<lparr>dataCoin := c'\<rparr>))) cid \<and>
      isl (mintDataset e2 (dataCoin (run later (w\<lparr>dataCoin := c'\<rparr>))) to2 cid name2
             description2 price2 accessPolicy2 maxSupply2) \<and>
      (dc_owner (dataCoin (run later (w\<lparr>dataCoin := c'\<rparr>))) = msg_sender e2 \<and>
       name2 \<noteq> [] \<and> 0 < price2 \<longrightarrow>
         mintDataset e2 (dataCoin (run later (w\<lparr>dataCoin := c'\<rparr>))) to2 cid name2
           description2 price2 accessPolicy2 maxSupply2
         = Inl (Revert ''Dataset with this CID already exists''))"
    if m: "mintDataset e (dataCoin w) to cid name description price accessPolicy maxSupply
             = Inr (c', evs, newTokenId)"
  proof -
    have now: "newTokenId = tokenIds (dataCoin w) + 1 \<and> tokenIds c' = newTokenId \<and>
               cidToTokenId c' cid \<noteq> 0 \<and> cid \<noteq> []"
      using m
      by (auto simp: mintDataset_def safeMint_def Let_def split: if_splits sum.splits)
    then have "cidToTokenId (dataCoin (w\<lparr>dataCoin := c'\<rparr>)) cid \<noteq> 0" by simp
    then have later: "cidToTokenId (dataCoin (run later (w\<lparr>dataCoin := c'\<rparr>))) cid \<noteq> 0"
      by (rule run_cid)
    show ?thesis
      using now later by (simp add: cidExists_def mintDataset_def)
  qed
  have errs: "dc_owner c3 = msg_sender e3 \<longrightarrow>
      (cid3 = [] \<longrightarrow>
         mintDataset e3 c3 to3 cid3 name3 description3 price3 accessPolicy3 maxSupply3
         = Inl (Revert ''CID cannot be empty'')) \<and>
      (cid3 \<noteq> [] \<and> name3 = [] \<longrightarrow>
         mintDataset e3 c3 to3 cid3 name3 description3 price3 accessPolicy3 maxSupply3
         = Inl (Revert ''Name cannot be empty'')) \<and>
      (cid3 \<noteq> [] \<and> name3 \<noteq> [] \<and> price3 = 0 \<longrightarrow>
         mintDataset e3 c3 to3 cid3 name3 description3 price3 accessPolicy3 maxSupply3
         = Inl (Revert ''Price must be greater than 0''))"
    by (simp add: mintDataset_def)
  have fails: "cid3 = [] \<or> name3 = [] \<or> price3 = 0 \<longrightarrow>
      isl (mintDataset e3 c3 to3 cid3 name3 description3 price3 accessPolicy3 maxSupply3)"
    by (auto simp: mintDataset_def)
  show ?thesis using ids ok errs fails by blast
qed

theorem mintDataset_ids_and_duplicates_witness:
  "minted three_mints (init dep0) = [1, 2] \<and>
   mintDataset (tx 1) (dataCoin (init dep0)) 3 ''QmTest123'' ''Test Dataset'' ''Description''
     1000000 ''public'' 5 =
     Inr (dataCoin minted_once, [DatasetMinted 1 3 ''QmTest123'' 1000000 ''public''], 1) \<and>
   cidExists (dataCoin minted_once) ''QmTest123'' \<and>
   cidExists (dataCoin (run [(tx 3, UpdateDataset 1 2000000 ''private'')] minted_once))
     ''QmTest123'' \<and>
   mintDataset (tx 1) (dataCoin (run [(tx 3, UpdateDataset 1 2000000 ''private'')] minted_once))
     3 ''QmTest123'' ''Second Dataset'' ''Description'' 2000000 ''private'' 0
     = Inl (Revert ''Dataset with this CID already exists'') \<and>
   mintDataset (tx 1) (dataCoin minted_once) 3 [] ''Second Dataset'' ''Description''
     2000000 ''private'' 0 = Inl (Revert ''CID cannot be empty'') \<and>
   mintDataset (tx 1) (dataCoin minted_once) 3 ''QmOther456'' [] ''Description''
     2000000 ''private'' 0 = Inl (Revert ''Name cannot be empty'') \<and>
   mintDataset (tx 1) (dataCoin minted_once) 3 ''QmOther456'' ''Second Dataset'' ''Description''
     0 ''private'' 0 = Inl (Revert ''Price must be greater than 0'')"
proof -
  let ?later = "[(tx 3, UpdateDataset 1 2000000 ''private'')]"
  have len: "length (minted three_mints (init dep0)) = 2"
    by (simp add: three_mints_def eval_defs)
  have a: "minted three_mints (init dep0) = [1, 2]"
    using mintDataset_ids_and_duplicates[where tr = three_mints and d = dep0] len
    by (simp add: upt_rec)
  have own: "dc_owner (dataCoin (run ?later minted_once)) = msg_sender (tx 1)"
    by (simp add: minted_once_def eval_defs)
  have b: "cidExists (dataCoin minted_once) ''QmTest123''"
          "cidExists (dataCoin (run ?later minted_once)) ''QmTest123''"
          "mintDataset (tx 1) (dataCoin (run ?later minted_once))
             3 ''QmTest123'' ''Second Dataset'' ''Description'' 2000000 ''private'' 0
           = Inl (Revert ''Dataset with this CID already exists'')"
    using mintDataset_ids_and_duplicates[where e = "tx 1" and w = "init dep0" and to = 3
            and cid = "''QmTest123''" and name = "''Test Dataset''"
            and description = "''Description''" and price = 1000000
            and accessPolicy = "''public''" and maxSupply = 5
            and c' = "dataCoin minted_once" and newTokenId = 1 and later = ?later
            and ?e2.0 = "tx 1" and ?name2.0 = "''Second Dataset''" and ?price2.0 = 2000000
            and ?to2.0 = 3 and ?description2.0 = "''Description''"
            and ?accessPolicy2.0 = "''private''" and ?maxSupply2.0 = 0]
          minted_once_facts(1,5) own
    by (simp_all del: One_nat_def)
  have o: "dc_owner (dataCoin minted_once) = msg_sender (tx 1)"
    by (simp add: minted_once_facts tx_def)
  have c: "mintDataset (tx 1) (dataCoin minted_once) 3 [] ''Second Dataset'' ''Description''
             2000000 ''private'' 0 = Inl (Revert ''CID cannot be empty'')"
    using mintDataset_ids_and_duplicates[where ?c3.0 = "dataCoin minted_once"
            and ?e3.0 = "tx 1" and ?cid3.0 = "[]" and ?to3.0 = 3
            and ?name3.0 = "''Second Dataset''" and ?description3.0 = "''Description''"
            and ?price3.0 = 2000000 and ?accessPolicy3.0 = "''private''"
            and ?maxSupply3.0 = 0] o
    by (simp del: One_nat_def)
  have d: "mintDataset (tx 1) (dataCoin minted_once) 3 ''QmOther456'' [] ''Description''
             2000000 ''private'' 0 = Inl (Revert ''Name cannot be empty'')"
    using mintDataset_ids_and_duplicates[where ?c3.0 = "dataCoin minted_once"
            and ?e3.0 = "tx 1" and ?cid3.0 = "''QmOther456''" and ?to3.0 = 3
            and ?name3.0 = "[]" and ?description3.0 = "''Description''"
            and ?price3.0 = 2000000 and ?accessPolicy3.0 = "''private''"
            and ?maxSupply3.0 = 0] o
    by (simp del: One_nat_def)
  have e: "mintDataset (tx 1) (dataCoin minted_once) 3 ''QmOther456'' ''Second Dataset''
             ''Description'' 0 ''private'' 0 = Inl (Revert ''Price must be greater than 0'')"
    using mintDataset_ids_and_duplicates[where ?c3.0 = "dataCoin minted_once"
            and ?e3.0 = "tx 1" and ?cid3.0 = "''QmOther456''" and ?to3.0 = 3
            and ?name3.0 = "''Second Dataset''" and ?description3.0 = "''Description''"
            and ?price3.0 = 0 and ?accessPolicy3.0 = "''private''"
            and ?maxSupply3.0 = 0] o
    by (simp del: One_nat_def)
  show ?thesis using a b c d e minted_once_facts(1) by blast
qed

section \<open>Rejections of a purchase\<close>

text \<open>
  Claim C6, as written, fails on a paused marketplace: \<open>whenNotPaused\<close> runs before the
  body, so a purchase of a deactivated dataset is rejected with \<open>EnforcedPause\<close> and not
  with \<open>DatasetNotActive\<close>.
\<close>

theorem executePurchase_rejections_paused:
  "\<not> d_isActive (datasets (dataCoin halted) 1) \<and>
   getDatasetInfo (dataCoin halted) 1 = Inr (datasets (dataCoin halted) 1) \<and>
   executePurchase (tx 2) halted 1 1 ''token-1'' = Inl EnforcedPause \<and>
   executePurchase (tx 2) halted 1 1 ''token-1'' \<noteq> Inl DatasetNotActive"
  by (simp add: halted_def eval_defs op_defs)

text \<open>
  Claim C6, amended. On a marketplace that is not paused and for a dataset that exists,
  \<open>executePurchase\<close> reverts with \<open>DatasetNotActive\<close> when the dataset is inactive;
  otherwise with \<open>InsufficientPayment\<close> when \<open>price * amount\<close> is zero (which, the price
  being positive, is \<open>amount = 0\<close>); otherwise with \<open>InsufficientPayment\<close> when
  \<open>price * amount\<close> fits in 256 bits and exceeds the caller's balance. Whatever the pause
  state, each of the three conditions makes the call revert, and a reverted call leaves
  the ledger as it was.
\<close>

theorem executePurchase_rejections:
  "(\<not> mp_paused (marketplace w) \<and> getDatasetInfo (dataCoin w) tokenId = Inr ds \<longrightarrow>
      (\<not> d_isActive ds \<longrightarrow>
         executePurchase e w tokenId amount tok = Inl DatasetNotActive) \<and>
      (d_isActive ds \<and> d_price ds * amount = 0 \<longrightarrow>
         executePurchase e w tokenId amount tok = Inl InsufficientPayment) \<and>
      (d_isActive ds \<and> 0 < d_price ds \<and> amount = 0 \<longrightarrow>
         executePurchase e w tokenId amount tok = Inl InsufficientPayment) \<and>
      (d_isActive ds \<and> d_price ds * amount \<le> MAX_UINT256 \<and>
       balanceOf (usdc w) (msg_sender e) < d_price ds * amount \<longrightarrow>
         executePurchase e w tokenId amount tok = Inl InsufficientPayment)) \<and>
   (getDatasetInfo (dataCoin w) tokenId = Inr ds \<and>
    (\<not> d_isActive ds \<or> d_price ds * amount = 0 \<or>
     balanceOf (usdc w) (msg_sender e) < d_price ds * amount) \<longrightarrow>
      isl (executePurchase e w tokenId amount tok)) \<and>
   (isl (executePurchase e w tokenId amount tok) \<longrightarrow>
      exec e (ExecutePurchase tokenId amount tok) w = w)"
proof -
  have unch: "exec e (ExecutePurchase tokenId amount tok) w = w"
    if "isl (executePurchase e w tokenId amount tok)"
    using that by (cases "executePurchase e w tokenId amount tok") (simp_all add: exec_def on_world_def)
  have fails: "isl (executePurchase e w tokenId amount tok)"
    if "getDatasetInfo (dataCoin w) tokenId = Inr ds"
       "\<not> d_isActive ds \<or> d_price ds * amount = 0 \<or>
        balanceOf (usdc w) (msg_sender e) < d_price ds * amount"
  proof (cases "executePurchase e w tokenId amount tok")
    case (Inl err)
    then show ?thesis by simp
  next
    case (Inr res)
    obtain w' evs where "executePurchase e w tokenId amount tok = Inr (w', evs)"
      using Inr by (cases res) auto
    from executePurchase_pre(2,3,5,6)[OF this] that show ?thesis by auto
  qed
  show ?thesis
    using unch fails
    by (auto simp: executePurchase_def Let_def)
qed

theorem executePurchase_rejections_witness:
  "executePurchase (tx 2) deactivated 1 1 ''token-1'' = Inl DatasetNotActive \<and>
   executePurchase (tx 2) market_ready 1 0 ''token-1'' = Inl InsufficientPayment \<and>
   executePurchase (tx 3) market_ready 1 1 ''token-1'' = Inl InsufficientPayment \<and>
   exec (tx 3) (ExecutePurchase 1 1 ''token-1'') market_ready = market_ready"
proof -
  have a: "executePurchase (tx 2) deactivated 1 1 ''token-1'' = Inl DatasetNotActive"
    using executePurchase_rejections[of deactivated 1 "datasets (dataCoin deactivated) 1"
            "tx 2" 1 "''token-1''"] deactivated_facts
    by blast
  have b: "executePurchase (tx 2) market_ready 1 0 ''token-1'' = Inl InsufficientPayment"
    using executePurchase_rejections[of market_ready 1 "datasets (dataCoin market_ready) 1"
            "tx 2" 0 "''token-1''"] ready_facts(1,2,3,4)
    by (simp del: One_nat_def)
  have short: "balanceOf (usdc market_ready) (msg_sender (tx 3))
                 < d_price (datasets (dataCoin market_ready) 1) * 1"
              "d_price (datasets (dataCoin market_ready) 1) * 1 \<le> MAX_UINT256"
    by (simp_all add: ready_facts tx_def MAX_UINT256_def del: One_nat_def)
  have c: "executePurchase (tx 3) market_ready 1 1 ''token-1'' = Inl InsufficientPayment"
    using executePurchase_rejections[of market_ready 1 "datasets (dataCoin market_ready) 1"
            "tx 3" 1 "''token-1''"] ready_facts(1,2,3) short
    by blast
  have d: "exec (tx 3) (ExecutePurchase 1 1 ''token-1'') market_ready = market_ready"
    using executePurchase_rejections[of market_ready 1 "datasets (dataCoin market_ready) 1"
            "tx 3" 1 "''token-1''"] c
    by (simp del: One_nat_def)
  show ?thesis using a b c d by blast
qed

section \<open>Creation of an intent\<close>

text \<open>
  Claim C7, as written, fails on a paused bridge: \<open>whenNotPaused\<close> runs before the
  \<open>require\<close> statements, so a request naming the unsupported chain 999 is rejected with
  \<open>EnforcedPause\<close> and not with the unsupported-chain error.
\<close>

theorem createIntent_rejections_paused:
  "\<not> supportedChains (bridge bridge_paused) 999 \<and>
   createIntent (tx 2) bridge_paused 1 1 999 137 = Inl EnforcedPause \<and>
   createIntent (tx 2) bridge_paused 1 1 999 137 \<noteq> Inl (Revert ''Unsupported source chain'')"
  by (simp add: bridge_paused_def eval_defs op_defs)

text \<open>
  Claim C7, amended. On a bridge that is not paused, \<open>createIntent\<close> reverts with
  ``Unsupported source chain'' when the source chain is not supported; otherwise with
  ``Unsupported destination chain'' when the destination is not supported; otherwise
  with ``Invalid amount'' when the quantity is zero; otherwise, for an existing dataset
  that is inactive, with ``Dataset not active''. Whatever the pause state, each of these
  conditions makes the call revert. A successful call stores the intent under the id
  derived from caller, dataset, quantity, chains, time and block number, with
  \<open>isExecuted = False\<close> and \<open>isSettled = False\<close>. At deployment the supported chains are
  exactly 1, 137, 42161, 10 and 8453; 999 is not among them.
\<close>

theorem createIntent_rejections:
  "(\<not> br_paused (bridge w) \<longrightarrow>
      (\<not> supportedChains (bridge w) src \<longrightarrow>
         createIntent e w tokenId amount src dst = Inl (Revert ''Unsupported source chain'')) \<and>
      (supportedChains (bridge w) src \<and> \<not> supportedChains (bridge w) dst \<longrightarrow>
         createIntent e w tokenId amount src dst = Inl (Revert ''Unsupported destination chain'')) \<and>
      (supportedChains (bridge w) src \<and> supportedChains (bridge w) dst \<and> amount = 0 \<longrightarrow>
         createIntent e w tokenId amount src dst = Inl (Revert ''Invalid amount'')) \<and>
      (supportedChains (bridge w) src \<and> supportedChains (bridge w) dst \<and> 0 < amount \<and>
       getDatasetInfo (dataCoin w) tokenId = Inr ds \<and> \<not> d_isActive ds \<longrightarrow>
         createIntent e w tokenId amount src dst = Inl (Revert ''Dataset not active''))) \<and>
   (\<not> supportedChains (bridge w) src \<or> \<not> supportedChains (bridge w) dst \<or> amount = 0 \<or>
    (getDatasetInfo (dataCoin w) tokenId = Inr ds \<and> \<not> d_isActive ds) \<longrightarrow>
      isl (createIntent e w tokenId amount src dst)) \<and>
   (createIntent e w tokenId amount src dst = Inr (w', evs, intentId) \<longrightarrow>
      intentId = keccak256 [msg_sender e, tokenId, amount, src, dst, block_timestamp e,
                            block_number e] \<and>
      intents (bridge w') intentId =
        \<lparr>i_intentId = intentId, i_buyer = msg_sender e, i_tokenId = tokenId,
         i_amount = amount, i_sourceChainId = src, i_destinationChainId = dst,
         i_usdcAmount = d_price (datasets (dataCoin w) tokenId) * amount,
         i_isExecuted = False, i_isSettled = False, i_createdAt = block_timestamp e,
         i_executedAt = 0, i_accessToken = []\<rparr>) \<and>
   supportedChains (bridge (init d)) chainId = (chainId \<in> {1, 137, 42161, 10, 8453}) \<and>
   \<not> supportedChains (bridge (init d)) 999"
proof -
  have gated: "\<not> br_paused (bridge w) \<longrightarrow>
      (\<not> supportedChains (bridge w) src \<longrightarrow>
         createIntent e w tokenId amount src dst = Inl (Revert ''Unsupported source chain'')) \<and>
      (supportedChains (bridge w) src \<and> \<not> supportedChains (bridge w) dst \<longrightarrow>
         createIntent e w tokenId amount src dst = Inl (Revert ''Unsupported destination chain'')) \<and>
      (supportedChains (bridge w) src \<and> supportedChains (bridge w) dst \<and> amount = 0 \<longrightarrow>
         createIntent e w tokenId amount src dst = Inl (Revert ''Invalid amount'')) \<and>
      (supportedChains (bridge w) src \<and> supportedChains (bridge w) dst \<and> 0 < amount \<and>
       getDatasetInfo (dataCoin w) tokenId = Inr ds \<and> \<not> d_isActive ds \<longrightarrow>
         createIntent e w tokenId amount src dst = Inl (Revert ''Dataset not active''))"
    by (simp add: createIntent_def)
  have fails: "\<not> supportedChains (bridge w) src \<or> \<not> supportedChains (bridge w) dst \<or> amount = 0 \<or>
    (getDatasetInfo (dataCoin w) tokenId = Inr ds \<and> \<not> d_isActive ds) \<longrightarrow>
      isl (createIntent e w tokenId amount src dst)"
    by (auto simp: createIntent_def)
  have ok: "createIntent e w tokenId amount src dst = Inr (w', evs, intentId) \<longrightarrow>
      intentId = keccak256 [msg_sender e, tokenId, amount, src, dst, block_timestamp e,
                            block_number e] \<and>
      intents (bridge w') intentId =
        \<lparr>i_intentId = intentId, i_buyer = msg_sender e, i_tokenId = tokenId,
         i_amount = amount, i_sourceChainId = src, i_destinationChainId = dst,
         i_usdcAmount = d_price (datasets (dataCoin w) tokenId) * amount,
         i_isExecuted = False, i_isSettled = False, i_createdAt = block_timestamp e,
         i_executedAt = 0, i_accessToken = []\<rparr>"
    by (auto simp: createIntent_def getDatasetInfo_def ownerOf_def Let_def
             split: if_splits sum.splits)
  have chains: "supportedChains (bridge (init d)) chainId = (chainId \<in> {1, 137, 42161, 10, 8453})"
               "\<not> supportedChains (bridge (init d)) 999"
    by (simp_all add: init_def)
  show ?thesis using gated fails ok chains by blast
qed

theorem createIntent_rejections_witness:
  "createIntent (tx 2) market_ready 1 1 999 137 = Inl (Revert ''Unsupported source chain'') \<and>
   createIntent (tx 2) market_ready 1 1 1 999 = Inl (Revert ''Unsupported destination chain'') \<and>
   createIntent (tx 2) market_ready 1 0 1 137 = Inl (Revert ''Invalid amount'') \<and>
   createIntent (tx 2) deactivated 1 1 1 137 = Inl (Revert ''Dataset not active'') \<and>
   createIntent (tx 2) market_ready 1 1 1 137 =
     Inr (intent_created, [IntentCreated [2, 1, 1, 1, 137, 1000, 7] 2 1 1 137 1000000],
          [2, 1, 1, 1, 137, 1000, 7]) \<and>
   i_isExecuted (intents (bridge intent_created) [2, 1, 1, 1, 137, 1000, 7]) = False \<and>
   i_isSettled (intents (bridge intent_created) [2, 1, 1, 1, 137, 1000, 7]) = False \<and>
   supportedChains (bridge (init dep0)) 8453 \<and>
   \<not> supportedChains (bridge (init dep0)) 999"
proof -
  have a: "createIntent (tx 2) market_ready 1 1 999 137 = Inl (Revert ''Unsupported source chain'')"
    using createIntent_rejections[where w = market_ready and src = 999 and dst = 137
            and e = "tx 2" and tokenId = 1 and amount = 1] created_facts
    by blast
  have b: "createIntent (tx 2) market_ready 1 1 1 999 = Inl (Revert ''Unsupported destination chain'')"
    using createIntent_rejections[where w = market_ready and src = 1 and dst = 999
            and e = "tx 2" and tokenId = 1 and amount = 1] created_facts
    by blast
  have c: "createIntent (tx 2) market_ready 1 0 1 137 = Inl (Revert ''Invalid amount'')"
    using createIntent_rejections[where w = market_ready and src = 1 and dst = 137
            and e = "tx 2" and tokenId = 1 and amount = 0] created_facts
    by blast
  have d: "createIntent (tx 2) deactivated 1 1 1 137 = Inl (Revert ''Dataset not active'')"
    using createIntent_rejections[where w = deactivated and src = 1 and dst = 137
            and e = "tx 2" and tokenId = 1 and amount = 1
            and ds = "datasets (dataCoin deactivated) 1"] created_facts deactivated_facts
    by (simp del: One_nat_def)
  have ok: "createIntent (tx 2) market_ready 1 1 1 137 =
     Inr (intent_created, [IntentCreated [2, 1, 1, 1, 137, 1000, 7] 2 1 1 137 1000000],
          [2, 1, 1, 1, 137, 1000, 7])"
    by (simp add: intent_created_def eval_defs op_defs)
  have f: "i_isExecuted (intents (bridge intent_created) [2, 1, 1, 1, 137, 1000, 7]) = False"
          "i_isSettled (intents (bridge intent_created) [2, 1, 1, 1, 137, 1000, 7]) = False"
    using createIntent_rejections[where w = market_ready and src = 1 and dst = 137
            and e = "tx 2" and tokenId = 1 and amount = 1 and w' = intent_created
            and intentId = "[2, 1, 1, 1, 137, 1000, 7]"] ok
    by (simp_all del: One_nat_def)
  have g: "supportedChains (bridge (init dep0)) 8453" "\<not> supportedChains (bridge (init dep0)) 999"
    using createIntent_rejections[where d = dep0 and chainId = 8453] by simp_all
  show ?thesis using a b c d ok f g by blast
qed

section \<open>Sold supply and total supply\<close>

text \<open>
  Claim C8, as written, fails: neither \<open>grantAccess\<close> nor \<open>executePurchase\<close> compares the
  sold supply with the total supply. A purchase of six units of a dataset minted with
  supply five succeeds and leaves \<open>soldSupply = 6 > totalSupply = 5\<close>.
\<close>

theorem soldSupply_exceeds_totalSupply:
  "\<not> isl (executePurchase (tx 2) market_ready 1 6 ''token-6'') \<and>
   d_totalSupply (datasets (dataCoin oversold) 1) = 5 \<and>
   d_soldSupply (datasets (dataCoin oversold) 1) = 6 \<and>
   \<not> d_soldSupply (datasets (dataCoin oversold) 1) \<le> d_totalSupply (datasets (dataCoin oversold) 1)"
  by (simp add: oversold_def eval_defs)

text \<open>
  Claim C8, amended. A successful \<open>executePurchase\<close> adds exactly the purchased quantity to
  the dataset's \<open>soldSupply\<close>, the sum being checked against the range of \<open>uint256\<close> only,
  and leaves \<open>totalSupply\<close> unchanged; for every existing dataset and every operation of
  the system, \<open>totalSupply\<close> stays the same and \<open>soldSupply\<close> does not decrease.
\<close>

theorem executePurchase_soldSupply:
  "(executePurchase e w tokenId amount tok = Inr (w', evs) \<longrightarrow>
      d_soldSupply (datasets (dataCoin w') tokenId) =
        d_soldSupply (datasets (dataCoin w) tokenId) + amount \<and>
      d_soldSupply (datasets (dataCoin w') tokenId) \<le> MAX_UINT256 \<and>
      d_totalSupply (datasets (dataCoin w') tokenId) =
        d_totalSupply (datasets (dataCoin w) tokenId)) \<and>
   (owners (dataCoin w) t \<noteq> 0 \<longrightarrow>
      d_totalSupply (datasets (dataCoin (exec e c w)) t) = d_totalSupply (datasets (dataCoin w) t) \<and>
      d_soldSupply (datasets (dataCoin w) t) \<le> d_soldSupply (datasets (dataCoin (exec e c w)) t))"
proof -
  have a: "d_soldSupply (datasets (dataCoin w') tokenId) =
        d_soldSupply (datasets (dataCoin w) tokenId) + amount \<and>
      d_soldSupply (datasets (dataCoin w') tokenId) \<le> MAX_UINT256 \<and>
      d_totalSupply (datasets (dataCoin w') tokenId) =
        d_totalSupply (datasets (dataCoin w) tokenId)"
    if ex: "executePurchase e w tokenId amount tok = Inr (w', evs)"
  proof -
    have "d_soldSupply (datasets (dataCoin w) tokenId) + amount \<le> MAX_UINT256"
      using ex
      by (auto simp: executePurchase_def getDatasetInfo_def ownerOf_def grantAccess_def Let_def
               split: if_splits sum.splits prod.splits)
    then show ?thesis by (simp add: executePurchase_coin[OF ex])
  qed
  have b: "d_totalSupply (datasets (dataCoin (exec e c w)) t) = d_totalSupply (datasets (dataCoin w) t) \<and>
      d_soldSupply (datasets (dataCoin w) t) \<le> d_soldSupply (datasets (dataCoin (exec e c w)) t)"
    if "owners (dataCoin w) t \<noteq> 0"
  proof (cases "dispatch e c w")
    case (Inl err)
    then show ?thesis by (simp add: exec_def)
  next
    case (Inr res)
    then obtain w2 evs2 r2 where d: "dispatch e c w = Inr (w2, evs2, r2)"
      by (cases res) auto
    then show ?thesis using dispatch_supply[OF d that] by (simp add: exec_def)
  qed
  show ?thesis using a b by blast
qed

theorem executePurchase_soldSupply_witness:
  "executePurchase (tx 2) market_ready 1 6 ''token-6'' =
     Inr (oversold,
          [AccessGranted 1 2 6 1000,
           PurchaseExecuted [1, 2, 6, 1000, 7] 1 2 6 1000000 150000 5850000,
           AccessTokenGenerated [1, 2, 6, 1000, 7] ''token-6'' 87400]) \<and>
   d_soldSupply (datasets (dataCoin market_ready) 1) = 0 \<and>
   d_soldSupply (datasets (dataCoin oversold) 1) = 6 \<and>
   d_totalSupply (datasets (dataCoin oversold) 1) = 5 \<and>
   d_totalSupply (datasets (dataCoin (exec (tx 1) (UpdatePlatformFee 300) oversold)) 1) = 5"
proof -
  have ex: "executePurchase (tx 2) market_ready 1 6 ''token-6'' =
     Inr (oversold,
          [AccessGranted 1 2 6 1000,
           PurchaseExecuted [1, 2, 6, 1000, 7] 1 2 6 1000000 150000 5850000,
           AccessTokenGenerated [1, 2, 6, 1000, 7] ''token-6'' 87400])"
    by (simp add: oversold_def eval_defs)
  have own: "owners (dataCoin oversold) 1 \<noteq> 0"
    by (simp add: oversold_def eval_defs)
  have a: "d_soldSupply (datasets (dataCoin oversold) 1) = 6"
          "d_totalSupply (datasets (dataCoin oversold) 1) = 5"
    using executePurchase_soldSupply[where e = "tx 2" and w = market_ready and tokenId = 1
            and amount = 6 and tok = "''token-6''" and w' = oversold] ex
          ready_facts(6,7)
    by (simp_all del: One_nat_def)
  have b: "d_totalSupply (datasets (dataCoin (exec (tx 1) (UpdatePlatformFee 300) oversold)) 1) = 5"
    using executePurchase_soldSupply[where e = "tx 1" and w = oversold and t = 1
            and c = "UpdatePlatformFee 300"] own a(2)
    by (simp del: One_nat_def)
  show ?thesis using ex a b ready_facts(7) by blast
qed

section \<open>Purchase ids\<close>

text \<open>
  What holds of the purchase ledger: an operation changes the record stored under an id
  only if it is a purchase (direct, or made by the bridge for an intent) that derives
  this id.
\<close>

lemma dispatch_purchases_append:
  assumes "dispatch e c w = Inr (w', evs, r)"
      and "purchases (marketplace w') pid \<noteq> purchases (marketplace w) pid"
  shows "(\<exists>t a tok. c = ExecutePurchase t a tok \<and>
            pid = keccak256 [t, msg_sender e, a, block_timestamp e, block_number e]) \<or>
         (\<exists>iid ph tok. c = ExecuteIntent iid ph tok \<and>
            pid = keccak256 [i_tokenId (intents (bridge w) iid), bridgeAddr w,
                             i_amount (intents (bridge w) iid), block_timestamp e,
                             block_number e])"
proof (cases c)
  case (ExecutePurchase t a tok)
  then have ex: "executePurchase e w t a tok = Inr (w', evs)"
    using assms(1) by (auto simp: on_world_def split: sum.splits prod.splits)
  show ?thesis
    using assms(2) ExecutePurchase
    by (auto simp: executePurchase_market[OF ex] split: if_splits)
next
  case (ExecuteIntent iid ph tok)
  then have ei: "executeIntent e w iid ph tok = Inr (w', evs)"
    using assms(1) by (auto simp: on_world_def split: sum.splits prod.splits)
  from executeIntent_success(5)[OF ei] obtain evs1 w1 where
    w1: "w1 = w\<lparr>bridge := (bridge w)\<lparr>intents := (intents (bridge w))(iid :=
                 (intents (bridge w) iid)\<lparr>i_isExecuted := True,
                    i_executedAt := block_timestamp e, i_accessToken := tok\<rparr>)\<rparr>\<rparr>"
    and ex: "executePurchase (e\<lparr>msg_sender := bridgeAddr w\<rparr>) w1
            (i_tokenId (intents (bridge w) iid)) (i_amount (intents (bridge w) iid)) tok
          = Inr (w', evs1)"
    by auto
  have m: "marketplace w1 = marketplace w" by (simp add: w1)
  show ?thesis
    using assms(2) ExecuteIntent
    by (auto simp: executePurchase_market[OF ex] m split: if_splits)
qed (use assms in \<open>auto simp: wrap_defs coin_defs token_defs op_defs Let_def
       split: if_splits sum.splits prod.splits\<close>)

text \<open>
  Claim C9 does not hold of the code. The id of a purchase is the hash of dataset,
  buyer, quantity, \<open>block.timestamp\<close> and \<open>block.number\<close>; nothing in it counts the
  calls. Two purchases of the same quantity of the same dataset by the same buyer in the
  same block therefore get the same id (they hash the same fields, so this does not
  depend on the hash): the second call overwrites the record of the first (here its
  access token), the id is listed twice for the buyer, both purchases are paid, and the
  token issued for the first purchase no longer verifies.
\<close>

theorem purchaseId_collision:
  "executePurchase (tx 2) market_ready 1 1 ''token-A'' =
     Inr (bought_once,
          [AccessGranted 1 2 1 1000,
           PurchaseExecuted [1, 2, 1, 1000, 7] 1 2 1 1000000 25000 975000,
           AccessTokenGenerated [1, 2, 1, 1000, 7] ''token-A'' 87400]) \<and>
   executePurchase (tx 2) bought_once 1 1 ''token-B'' =
     Inr (bought_twice,
          [AccessGranted 1 2 1 1000,
           PurchaseExecuted [1, 2, 1, 1000, 7] 1 2 1 1000000 25000 975000,
           AccessTokenGenerated [1, 2, 1, 1000, 7] ''token-B'' 87400]) \<and>
   purchases (marketplace bought_once) [1, 2, 1, 1000, 7] =
     \<lparr>p_tokenId = 1, p_buyer = 2, p_amount = 1, p_price = 1000000, p_timestamp = 1000,
      p_isActive = True, p_accessToken = ''token-A''\<rparr> \<and>
   purchases (marketplace bought_twice) [1, 2, 1, 1000, 7] =
     \<lparr>p_tokenId = 1, p_buyer = 2, p_amount = 1, p_price = 1000000, p_timestamp = 1000,
      p_isActive = True, p_accessToken = ''token-B''\<rparr> \<and>
   getBuyerPurchases (marketplace bought_twice) 2 =
     [[1, 2, 1, 1000, 7], [1, 2, 1, 1000, 7]] \<and>
   getTokenSales (marketplace bought_twice) 1 = 2 \<and>
   balanceOf (usdc bought_twice) 2 = 8000000 \<and>
   verifyAccessToken (tx 2) (marketplace bought_once) [1, 2, 1, 1000, 7] ''token-A'' = Inr True \<and>
   verifyAccessToken (tx 2) (marketplace bought_twice) [1, 2, 1, 1000, 7] ''token-A'' = Inr False"
  by (simp add: bought_twice_def bought_once_def eval_defs verifyAccessToken_def
        getBuyerPurchases_def getTokenSales_def)

section \<open>The registry of verified proofs\<close>



end
